theory Spec2Isabelle
  imports Complex_Main "HOL-Library.Word"
begin

unbundle bit_operations_syntax

section \<open>Time, durations, errors and formatted text\<close>

text \<open>
  A \<^verbatim>\<open>time.Time\<close> is modelled as the number of nanoseconds since Go's zero time
  (\<^verbatim>\<open>time.Time{}\<close> is 0), a \<^verbatim>\<open>time.Duration\<close> as a number of nanoseconds.
  The instants the loops compare come from one ticker and carry Go's monotonic clock
  reading, so \<^verbatim>\<open>Before\<close>, \<^verbatim>\<open>After\<close> and \<^verbatim>\<open>Sub\<close> are comparisons and differences
  of these numbers.
\<close>

type_synonym Time = int
type_synonym Duration = int

definition Millisecond :: Duration where
  "Millisecond = 1000000"

definition Second :: Duration where
  "Second = 1000 * Millisecond"

definition Minute :: Duration where
  "Minute = 60 * Second"

definition Hour :: Duration where
  "Hour = 60 * Minute"

definition IsZero :: "Time \<Rightarrow> bool" where
  "IsZero t \<longleftrightarrow> t = 0"

definition Before :: "Time \<Rightarrow> Time \<Rightarrow> bool" where
  "Before t u \<longleftrightarrow> t < u"

definition After :: "Time \<Rightarrow> Time \<Rightarrow> bool" where
  "After t u \<longleftrightarrow> t > u"

definition Add :: "Time \<Rightarrow> Duration \<Rightarrow> Time" where
  "Add t d = t + d"

definition Sub :: "Time \<Rightarrow> Time \<Rightarrow> Duration" where
  "Sub t u = t - u"

text \<open>\<^verbatim>\<open>t.Truncate(d)\<close> rounds \<^verbatim>\<open>t\<close> down to a multiple of \<^verbatim>\<open>d\<close> since the zero
  time, and returns \<^verbatim>\<open>t\<close> unchanged when \<^verbatim>\<open>d <= 0\<close>.\<close>

definition Truncate :: "Time \<Rightarrow> Duration \<Rightarrow> Time" where
  "Truncate t d = (if d \<le> 0 then t else t - t mod d)"

text \<open>\<^verbatim>\<open>d.Seconds()\<close>: the duration as a floating-point number of seconds. Every
  \<^verbatim>\<open>float64\<close> of the program is modelled as the real number it stands for.\<close>

definition Seconds :: "Duration \<Rightarrow> real" where
  "Seconds d = real_of_int d / 1000000000"

text \<open>
  Errors are values. \<^verbatim>\<open>Errno\<close> is an error handed back by the operating system or by
  a library (with its message); \<^verbatim>\<open>Errorf\<close> is \<^verbatim>\<open>fmt.Errorf\<close> with the format string
  of the source and its arguments. Formatted text (\<^verbatim>\<open>fmt.Sprintf\<close>) is kept in the same
  symbolic form: the format string of the source and the list of its arguments, each
  argument tagged with the way the source renders it.
\<close>

datatype error = Errno string | Errorf string "fmt_arg list"
and fmt_arg =
    S string      \<comment> \<open>a string passed as it is\<close>
  | D int         \<comment> \<open>an integer, printed by \<^verbatim>\<open>%d\<close>\<close>
  | F real        \<comment> \<open>a \<^verbatim>\<open>float64\<close>, printed by \<^verbatim>\<open>%.0f\<close> or \<^verbatim>\<open>%.4f\<close>\<close>
  | V error       \<comment> \<open>an error, printed by \<^verbatim>\<open>%v\<close> or \<^verbatim>\<open>%s\<close>\<close>
  | Dur Duration  \<comment> \<open>a duration, printed by its \<^verbatim>\<open>String()\<close>\<close>
  | RFC3339 Time  \<comment> \<open>\<^verbatim>\<open>t.Format(time.RFC3339)\<close>\<close>
  | RFC3339UTC Time \<comment> \<open>\<^verbatim>\<open>t.UTC().Format(time.RFC3339)\<close>\<close>
  | HourKey Time  \<comment> \<open>\<^verbatim>\<open>t.UTC().Format("2006-01-02T15:00:00Z")\<close>\<close>

datatype str =
    Sprintf string "fmt_arg list"   \<comment> \<open>\<^verbatim>\<open>fmt.Sprintf(format, args...)\<close>\<close>
  | StrCat string error             \<comment> \<open>\<^verbatim>\<open>"literal" + err.Error()\<close>\<close>

section \<open>The Win32 queries\<close>

record POINT =
  X :: "32 word"
  Y :: "32 word"

text \<open>What \<^verbatim>\<open>GetLastInputInfo\<close> and \<^verbatim>\<open>GetTickCount64\<close> hand back on one call of
  \<^verbatim>\<open>getIdleDuration\<close>: the result word \<^verbatim>\<open>r1\<close>, the error of the call, the field
  \<^verbatim>\<open>lii.DwTime\<close> and the 64-bit tick count.\<close>

record IdleQuery =
  lii_r1 :: "64 word"
  lii_err :: error
  lii_DwTime :: "32 word"
  tick64 :: "64 word"

text \<open>What \<^verbatim>\<open>GetCursorPos\<close> hands back on one call of \<^verbatim>\<open>getMousePos\<close>.\<close>

record CursorQuery =
  cur_r1 :: "64 word"
  cur_err :: error
  cur_p :: POINT

text \<open>The arithmetic of \<^verbatim>\<open>getIdleDuration\<close> on \<^verbatim>\<open>uint64\<close> values.\<close>

definition idleMillis :: "64 word \<Rightarrow> 32 word \<Rightarrow> 64 word" where
  "idleMillis tick DwTime =
     (let now = tick;
          last = (ucast DwTime :: 64 word);
          now32 = now AND 0xFFFFFFFF
      in if now32 \<ge> last then now32 - last
         else (0x100000000 - last) + now32)"

text \<open>\<^verbatim>\<open>time.Duration(idleMillis) * time.Millisecond\<close> is a product of \<^verbatim>\<open>int64\<close>
  values: it wraps at 64 bits and is read as a signed number.\<close>

definition getIdleDuration :: "IdleQuery \<Rightarrow> error + Duration" where
  "getIdleDuration q =
     (if lii_r1 q = 0 then Inl (lii_err q)
      else Inr (sint (idleMillis (tick64 q) (lii_DwTime q) * 1000000)))"

definition getMousePos :: "CursorQuery \<Rightarrow> error + POINT" where
  "getMousePos q = (if cur_r1 q = 0 then Inl (cur_err q) else Inr (cur_p q))"

section \<open>The sliding window and the mode decision\<close>

record sample =
  s_t :: Time
  s_active :: bool

type_synonym Mode = string

definition ModeHighProductive :: Mode where
  "ModeHighProductive = ''HIGH_PRODUCTIVE''"

definition ModeSimpleProductive :: Mode where
  "ModeSimpleProductive = ''SIMPLE_PRODUCTIVE''"

definition ModeIdle :: Mode where
  "ModeIdle = ''IDLE''"

record Config =
  SampleEvery :: Duration
  WindowSize :: Duration
  ActiveIfIdleLessThan :: Duration
  HighProductiveRatio :: real
  SimpleProductiveRatio :: real
  ContinuousIdleThreshold :: Duration
  PrintStatusEvery :: Duration
  PrintMouseMoveEvery :: Duration
  LogDir :: string
  LogBaseName :: string
  FlushEvery :: Duration

text \<open>The eviction loop of the sampling tick,
  \<^verbatim>\<open>for i < len(samples) && samples[i].t.Before(cutoff) { i++ }\<close>: it returns the
  index it stops at.\<close>

function dropIndex :: "sample list \<Rightarrow> Time \<Rightarrow> nat \<Rightarrow> nat" where
  "dropIndex samples cutoff i =
     (if i < length samples \<and> Before (s_t (samples ! i)) cutoff
      then dropIndex samples cutoff (i + 1)
      else i)"
  by pat_completeness auto
termination
  by (relation "measure (\<lambda>(samples, cutoff, i). length samples - i)") auto

declare dropIndex.simps [simp del]

text \<open>Pushing one sample: append it, then drop the old samples outside the window
  (\<^verbatim>\<open>samples = samples[i:]\<close> when \<^verbatim>\<open>i > 0\<close>).\<close>

definition Push :: "Config \<Rightarrow> Time \<Rightarrow> bool \<Rightarrow> sample list \<Rightarrow> sample list" where
  "Push cfg now isActive samples0 =
     (let samples = samples0 @ [\<lparr>s_t = now, s_active = isActive\<rparr>];
          cutoff = Add now (- WindowSize cfg);
          i = dropIndex samples cutoff 0
      in if i > 0 then drop i samples else samples)"

text \<open>The counting loop \<^verbatim>\<open>for _, s := range samples { if s.active { activeCount++ } }\<close>
  and the ratio computed from it.\<close>

primrec countActive :: "sample list \<Rightarrow> int \<Rightarrow> int" where
  "countActive [] activeCount = activeCount"
| "countActive (s # ss) activeCount =
     countActive ss (if s_active s then activeCount + 1 else activeCount)"

definition ActiveRatio :: "sample list \<Rightarrow> real" where
  "ActiveRatio samples =
     (let activeCount = countActive samples 0;
          total = int (length samples)
      in if total > 0 then real_of_int activeCount / real_of_int total else 0)"

definition modeFrom :: "Duration \<Rightarrow> real \<Rightarrow> Config \<Rightarrow> Mode" where
  "modeFrom idleNow activeRatio cfg =
     (if idleNow \<ge> ContinuousIdleThreshold cfg then ModeIdle
      else if activeRatio \<ge> HighProductiveRatio cfg then ModeHighProductive
      else if activeRatio \<ge> SimpleProductiveRatio cfg then ModeSimpleProductive
      else ModeIdle)"



text \<open>The configuration that \<^verbatim>\<open>main\<close> builds.\<close>

definition main_cfg :: Config where
  "main_cfg =
     \<lparr>SampleEvery = 1 * Second,
      WindowSize = 30 * Minute,
      ActiveIfIdleLessThan = 30 * Second,
      HighProductiveRatio = 0.60,
      SimpleProductiveRatio = 0.30,
      ContinuousIdleThreshold = 30 * Minute,
      PrintStatusEvery = 30 * Second,
      PrintMouseMoveEvery = 0,
      LogDir = ''C:'' @ [CHR 0x5C] @ ''ProgramData'' @ [CHR 0x5C] @ ''ActivityMonitor'',
      LogBaseName = ''activity'',
      FlushEvery = 5 * Second\<rparr>"

section \<open>The sampling loop that keeps the window\<close>

text \<open>
  The variables of \<^verbatim>\<open>main\<close> that the loop updates, and \<^verbatim>\<open>written\<close>: the lines handed
  to \<^verbatim>\<open>writeLine\<close> (that is, to \<^verbatim>\<open>rot.Println\<close>) so far, oldest first.
\<close>

record LoopState =
  lastMouse :: POINT
  samples :: "sample list"
  lastMode :: Mode
  lastStatusPrint :: Time
  lastMousePrint :: Time
  written :: "str list"

definition writeLine :: "str \<Rightarrow> LoopState \<Rightarrow> LoopState" where
  "writeLine line st = st\<lparr>written := written st @ [line]\<rparr>"

text \<open>Step 1 of a sampling tick: mouse move detection.\<close>

definition tick_mouse :: "Config \<Rightarrow> Time \<Rightarrow> CursorQuery \<Rightarrow> LoopState \<Rightarrow> LoopState" where
  "tick_mouse cfg now cq st =
     (let ts = RFC3339 now in
      case getMousePos cq of
        Inr p \<Rightarrow>
          if X p \<noteq> X (lastMouse st) \<or> Y p \<noteq> Y (lastMouse st) then
            (let st1 =
               (if PrintMouseMoveEvery cfg = 0 \<or> IsZero (lastMousePrint st)
                   \<or> Sub now (lastMousePrint st) \<ge> PrintMouseMoveEvery cfg
                then
                  (let dx = X p - X (lastMouse st);
                       dy = Y p - Y (lastMouse st)
                   in (writeLine
                         (Sprintf ''[%s] MOUSE MOVE: (%d,%d) delta=(%d,%d)''
                            [ts, D (sint (X p)), D (sint (Y p)), D (sint dx), D (sint dy)])
                         st)\<lparr>lastMousePrint := now\<rparr>)
                else st)
             in st1\<lparr>lastMouse := p\<rparr>)
          else st
      | Inl err \<Rightarrow>
          writeLine (Sprintf ''[%s] GetCursorPos error: %v'' [ts, V err]) st)"

text \<open>Steps 2 and 3 of a sampling tick: idle time, activity scoring, status logging.\<close>

definition tick_idle :: "Config \<Rightarrow> Time \<Rightarrow> IdleQuery \<Rightarrow> LoopState \<Rightarrow> LoopState" where
  "tick_idle cfg now iq st =
     (let ts = RFC3339 now in
      case getIdleDuration iq of
        Inl err \<Rightarrow>
          writeLine (Sprintf ''[%s] GetLastInputInfo error: %v'' [ts, V err]) st
      | Inr idleNow \<Rightarrow>
          (let isActive = idleNow < ActiveIfIdleLessThan cfg;
               st1 = st\<lparr>samples := Push cfg now isActive (samples st)\<rparr>;
               activeRatio = ActiveRatio (samples st1);
               total = int (length (samples st1));
               mode = modeFrom idleNow activeRatio cfg
           in if mode \<noteq> lastMode st1 then
                (writeLine
                   (Sprintf ''[%s] MODE CHANGE: %s  idleNow=%s  activeRatio=%.0f%%  samples=%d''
                      [ts, S mode, Dur idleNow, F (activeRatio * 100), D total])
                   st1)\<lparr>lastMode := mode, lastStatusPrint := now\<rparr>
              else if IsZero (lastStatusPrint st1)
                      \<or> Sub now (lastStatusPrint st1) \<ge> PrintStatusEvery cfg then
                (writeLine
                   (Sprintf ''[%s] STATUS: mode=%s  idleNow=%s  activeRatio=%.0f%%  samples=%d''
                      [ts, S mode, Dur idleNow, F (activeRatio * 100), D total])
                   st1)\<lparr>lastStatusPrint := now\<rparr>
              else st1))"

definition tick :: "Config \<Rightarrow> Time \<Rightarrow> CursorQuery \<Rightarrow> IdleQuery \<Rightarrow> LoopState \<Rightarrow> LoopState" where
  "tick cfg now cq iq st = tick_idle cfg now iq (tick_mouse cfg now cq st)"

text \<open>
  What the \<^verbatim>\<open>select\<close> of the loop receives: the cancellation (with the time read when
  the last line is written), a flush tick, or a sampling tick with its time and with
  what the two queries hand back during it.
\<close>

datatype event =
    Done Time
  | FlushTick
  | SampleTick Time CursorQuery IdleQuery

text \<open>The loop over the events received. \<^verbatim>\<open>rot.Sync()\<close> writes no line.\<close>

fun run :: "Config \<Rightarrow> LoopState \<Rightarrow> event list \<Rightarrow> LoopState" where
  "run cfg st [] = st"
| "run cfg st (Done t # evs) = writeLine (Sprintf ''[%s] STOP'' [RFC3339 t]) st"
| "run cfg st (FlushTick # evs) = run cfg st evs"
| "run cfg st (SampleTick now cq iq # evs) = run cfg (tick cfg now cq iq st) evs"

text \<open>What the start of \<^verbatim>\<open>main\<close> reads: the error of \<^verbatim>\<open>NewRotatingLogger\<close> (if any),
  the first cursor query, and the time of the START line.\<close>

record Startup =
  su_logger :: "error option"
  su_cursor :: CursorQuery
  su_now :: Time

text \<open>\<^verbatim>\<open>main\<close>: the lines handed to the log writer in a run that receives \<open>evs\<close>.\<close>

definition main :: "Startup \<Rightarrow> event list \<Rightarrow> str list" where
  "main su evs =
     (let cfg = main_cfg in
      case su_logger su of
        Some err \<Rightarrow> []
      | None \<Rightarrow>
         (case getMousePos (su_cursor su) of
            Inl err \<Rightarrow> [StrCat ''GetCursorPos error: '' err]
          | Inr p \<Rightarrow>
              written
                (run cfg
                   (writeLine
                      (Sprintf ''[%s] START (logs in %s as %s-YYYY-MM-DD.log)''
                         [RFC3339 (su_now su), S (LogDir cfg), S (LogBaseName cfg)])
                      \<lparr>lastMouse = p, samples = [], lastMode = [],
                       lastStatusPrint = 0, lastMousePrint = 0, written = []\<rparr>)
                   evs)))"

section \<open>The hourly aggregation and the remote store\<close>

record HConfig =
  hSampleEvery :: Duration
  hActiveIfIdleLessThan :: Duration
  hPrintMouseMoveEvery :: Duration
  hLogDir :: string
  hLogBaseName :: string
  hFlushEvery :: Duration
  RqliteBaseURL :: string
  RqliteUser :: string
  RqlitePass :: string
  HostName :: string
  UserName :: string

definition statusFor :: "real \<Rightarrow> int \<Rightarrow> string" where
  "statusFor activityPct samplesInHour =
     (if samplesInHour = 0 \<or> activityPct = 0 then ''OFF''
      else if activityPct < 50.0 then ''LOW''
      else if activityPct < 60.0 then ''ACTIVE''
      else ''HIGH_PRODUCTION'')"

text \<open>The activity percentage computed at the hour rollover.\<close>

definition sealedActivityPct :: "real \<Rightarrow> int \<Rightarrow> real" where
  "sealedActivityPct idleSecondsInHour samplesInHour =
     (if samplesInHour > 0 then
        (let idleRatio = idleSecondsInHour / 3600.0;
             idleRatio = (if idleRatio < 0 then 0 else idleRatio);
             idleRatio = (if idleRatio > 1 then 1 else idleRatio)
         in (1.0 - idleRatio) * 100.0)
      else 0.0)"

record rqliteResult =
  LastInsertID :: int
  RowsAffected :: int
  ResultError :: string

record rqliteExecuteResp =
  Results :: "rqliteResult list"
  Error :: string

record Request =
  req_method :: string
  req_url :: string
  req_body :: string
  req_content_type :: string
  req_basic_auth :: "(string \<times> string) option"

record Response =
  StatusCode :: int
  Status :: string
  Body :: string

text \<open>
  The library calls of \<^verbatim>\<open>rqliteExec\<close>, as the world answers them during one call:
  \<^verbatim>\<open>json.Marshal\<close> of the statements, \<^verbatim>\<open>http.NewRequest\<close> (its error for a method, a URL
  and a body), \<^verbatim>\<open>httpClient.Do\<close> (\<^verbatim>\<open>Body\<close> is what \<^verbatim>\<open>io.ReadAll\<close> then reads), and
  \<^verbatim>\<open>json.Unmarshal\<close> into \<^verbatim>\<open>rqliteExecuteResp\<close>.
\<close>

record HTTPEnv =
  json_Marshal :: "str list \<Rightarrow> error + string"
  http_NewRequest :: "string \<Rightarrow> string \<Rightarrow> string \<Rightarrow> error option"
  http_Do :: "Request \<Rightarrow> error + Response"
  json_Unmarshal :: "string \<Rightarrow> error + rqliteExecuteResp"

definition escapeSQLString :: "string \<Rightarrow> string" where
  "escapeSQLString s =
     concat (map (\<lambda>c. if c = CHR 0x22 then [CHR 0x22, CHR 0x22] else [c]) s)"

text \<open>The loop \<^verbatim>\<open>for i, r := range parsed.Results\<close>: the first statement error.\<close>

fun firstResultError :: "int \<Rightarrow> rqliteResult list \<Rightarrow> error option" where
  "firstResultError i [] = None"
| "firstResultError i (r # rs) =
     (if ResultError r \<noteq> [] then
        Some (Errorf ''rqlite SQL error (stmt %d): %s'' [D i, S (ResultError r)])
      else firstResultError (i + 1) rs)"

definition rqliteExec :: "HTTPEnv \<Rightarrow> HConfig \<Rightarrow> str list \<Rightarrow> error option" where
  "rqliteExec env cfg stmts =
     (if RqliteBaseURL cfg = [] then Some (Errorf ''RqliteBaseURL is empty'' [])
      else case json_Marshal env stmts of
        Inl err \<Rightarrow> Some err
      | Inr body \<Rightarrow>
         (case http_NewRequest env ''POST'' (RqliteBaseURL cfg @ ''/db/execute'') body of
            Some err \<Rightarrow> Some err
          | None \<Rightarrow>
             (let req = \<lparr>req_method = ''POST'',
                         req_url = RqliteBaseURL cfg @ ''/db/execute'',
                         req_body = body,
                         req_content_type = ''application/json'',
                         req_basic_auth =
                           (if RqliteUser cfg \<noteq> [] then Some (RqliteUser cfg, RqlitePass cfg)
                            else None)\<rparr>
              in case http_Do env req of
                   Inl err \<Rightarrow> Some err
                 | Inr resp \<Rightarrow>
                    (let respBytes = Body resp in
                     if StatusCode resp < 200 \<or> StatusCode resp \<ge> 300 then
                       Some (Errorf ''rqlite execute failed: HTTP %s body=%s''
                               [S (Status resp), S respBytes])
                     else case json_Unmarshal env respBytes of
                       Inl err \<Rightarrow>
                         Some (Errorf ''rqlite execute: cannot parse JSON: %v body=%s''
                                 [V err, S respBytes])
                     | Inr parsed \<Rightarrow>
                         if Error parsed \<noteq> [] then
                           Some (Errorf ''rqlite execute error: %s'' [S (Error parsed)])
                         else firstResultError 0 (Results parsed)))))"

definition insertHourly ::
  "HTTPEnv \<Rightarrow> HConfig \<Rightarrow> Time \<Rightarrow> real \<Rightarrow> real \<Rightarrow> int \<Rightarrow> string \<Rightarrow> Time \<Rightarrow> error option" where
  \<open>insertHourly env cfg hourStart' activityPct idleSeconds samples' status createdAt =
     (let stat = escapeSQLString status;
          stmt = Sprintf
            (''INSERT OR REPLACE INTO activity_hourly(hour_start, activity_pct, idle_seconds, samples, status, created_at)''
             @ [CHR 0x0A]
             @ ''         VALUES ("%s", %.4f, %.0f, %d, "%s", "%s");'')
            [HourKey hourStart', F activityPct, F idleSeconds, D samples', S stat,
             RFC3339UTC createdAt]
      in rqliteExec env cfg [stmt])\<close>

text \<open>One call of \<^verbatim>\<open>insertHourly\<close>, as the loop makes it: the bucket handed over.\<close>

record HourlyRow =
  row_hourStart :: Time
  row_activityPct :: real
  row_idleSeconds :: real
  row_samples :: int
  row_status :: string
  row_createdAt :: Time

text \<open>
  The variables of \<^verbatim>\<open>main\<close> that the loop updates; \<^verbatim>\<open>hWritten\<close>, the lines handed to
  \<^verbatim>\<open>writeLine\<close> so far; and \<^verbatim>\<open>handedOver\<close>, the calls of \<^verbatim>\<open>insertHourly\<close> made so far,
  oldest first.
\<close>

record HourlyState =
  hourStart :: Time
  idleSecondsInHour :: real
  samplesInHour :: int
  hLastMouse :: POINT
  hLastMousePrint :: Time
  lastMouseMoveAt :: Time
  hWritten :: "str list"
  handedOver :: "HourlyRow list"

definition hWriteLine :: "str \<Rightarrow> HourlyState \<Rightarrow> HourlyState" where
  "hWriteLine line st = st\<lparr>hWritten := hWritten st @ [line]\<rparr>"

text \<open>The hour rollover at the start of a sampling tick.\<close>

definition rollover :: "HTTPEnv \<Rightarrow> HConfig \<Rightarrow> Time \<Rightarrow> HourlyState \<Rightarrow> HourlyState" where
  "rollover env cfg now st =
     (let ts = RFC3339 now;
          curHour = Truncate now Hour
      in if After curHour (hourStart st) then
           (let activityPct = sealedActivityPct (idleSecondsInHour st) (samplesInHour st);
                status = statusFor activityPct (samplesInHour st);
                st1 = st\<lparr>handedOver := handedOver st @
                        [\<lparr>row_hourStart = hourStart st, row_activityPct = activityPct,
                          row_idleSeconds = idleSecondsInHour st,
                          row_samples = samplesInHour st, row_status = status,
                          row_createdAt = now\<rparr>]\<rparr>;
                st2 =
                  (case insertHourly env cfg (hourStart st) activityPct (idleSecondsInHour st)
                          (samplesInHour st) status now of
                     Some err \<Rightarrow>
                       hWriteLine (Sprintf ''[%s] RQLITE insert error: %v'' [ts, V err]) st1
                   | None \<Rightarrow>
                       hWriteLine
                         (Sprintf ''[%s] RQLITE insert ok: hour=%s activity=%.0f%% idleSeconds=%.0f samples=%d status=%s''
                            [ts, HourKey (hourStart st), F activityPct,
                             F (idleSecondsInHour st), D (samplesInHour st), S status])
                         st1)
            in st2\<lparr>hourStart := curHour, idleSecondsInHour := 0, samplesInHour := 0\<rparr>)
         else st)"

text \<open>Polling the idle time and updating the hourly counters; the first component is
  \<^verbatim>\<open>idleStr\<close>.\<close>

definition poll_idle :: "HConfig \<Rightarrow> IdleQuery \<Rightarrow> HourlyState \<Rightarrow> fmt_arg \<times> HourlyState" where
  "poll_idle cfg iq st =
     (case getIdleDuration iq of
        Inl idleErr \<Rightarrow> (S ''unknown'', st)
      | Inr idleNow \<Rightarrow>
          (Dur idleNow,
           st\<lparr>samplesInHour := samplesInHour st + 1,
              idleSecondsInHour :=
                (if idleNow \<ge> hActiveIfIdleLessThan cfg
                 then idleSecondsInHour st + Seconds (hSampleEvery cfg)
                 else idleSecondsInHour st)\<rparr>))"

text \<open>Mouse move event logging.\<close>

definition log_mouse ::
  "HConfig \<Rightarrow> Time \<Rightarrow> CursorQuery \<Rightarrow> fmt_arg \<Rightarrow> HourlyState \<Rightarrow> HourlyState" where
  "log_mouse cfg now cq idleStr st =
     (let ts = RFC3339 now in
      case getMousePos cq of
        Inl err \<Rightarrow> hWriteLine (Sprintf ''[%s] GetCursorPos error: %v'' [ts, V err]) st
      | Inr p \<Rightarrow>
          if X p = X (hLastMouse st) \<and> Y p = Y (hLastMouse st) then st
          else
            (let prevMoveStr =
                   (if \<not> IsZero (lastMouseMoveAt st) then RFC3339UTC (lastMouseMoveAt st)
                    else S ''first_move'');
                 st1 =
                   (if hPrintMouseMoveEvery cfg = 0 \<or> IsZero (hLastMousePrint st)
                       \<or> Sub now (hLastMousePrint st) \<ge> hPrintMouseMoveEvery cfg
                    then
                      (hWriteLine
                         (Sprintf ''[%s] EVENT=MOUSE_MOVE pos=(%d,%d) prevMouseMoveAt=%s idleNow=%s''
                            [ts, D (sint (X p)), D (sint (Y p)), prevMoveStr, idleStr])
                         st)\<lparr>hLastMousePrint := now\<rparr>
                    else st)
             in st1\<lparr>hLastMouse := p, lastMouseMoveAt := now\<rparr>))"

definition hTick ::
  "HConfig \<Rightarrow> Time \<Rightarrow> HTTPEnv \<Rightarrow> CursorQuery \<Rightarrow> IdleQuery \<Rightarrow> HourlyState \<Rightarrow> HourlyState" where
  "hTick cfg now env cq iq st =
     (let st1 = rollover env cfg now st;
          (idleStr, st2) = poll_idle cfg iq st1
      in log_mouse cfg now cq idleStr st2)"

datatype hEvent =
    HDone Time
  | HFlushTick
  | HSampleTick Time HTTPEnv CursorQuery IdleQuery

fun hRun :: "HConfig \<Rightarrow> HourlyState \<Rightarrow> hEvent list \<Rightarrow> HourlyState" where
  "hRun cfg st [] = st"
| "hRun cfg st (HDone t # evs) = hWriteLine (Sprintf ''[%s] STOP'' [RFC3339 t]) st"
| "hRun cfg st (HFlushTick # evs) = hRun cfg st evs"
| "hRun cfg st (HSampleTick now env cq iq # evs) = hRun cfg (hTick cfg now env cq iq st) evs"

text \<open>What the start of this \<^verbatim>\<open>main\<close> reads: host and user name, the error of
  \<^verbatim>\<open>NewRotatingLogger\<close> (if any), the first cursor query, the time from which the first
  hour is taken, and the time of the START line.\<close>

record HStartup =
  hs_hostname :: string
  hs_username :: string
  hs_logger :: "error option"
  hs_cursor :: CursorQuery
  hs_hour_now :: Time
  hs_start_now :: Time

definition hMain_cfg :: "string \<Rightarrow> string \<Rightarrow> HConfig" where
  "hMain_cfg hn un =
     \<lparr>hSampleEvery = 1 * Second,
      hActiveIfIdleLessThan = 30 * Second,
      hPrintMouseMoveEvery = 0,
      hLogDir = ''C:'' @ [CHR 0x5C] @ ''ProgramData'' @ [CHR 0x5C] @ ''ActivityMonitor'',
      hLogBaseName = ''activity'',
      hFlushEvery = 5 * Second,
      RqliteBaseURL = ''http://192.168.1.6:4001'',
      RqliteUser = [],
      RqlitePass = [],
      HostName = hn,
      UserName = un\<rparr>"

text \<open>\<^verbatim>\<open>main\<close> of the monitor with the remote store: the final state of a run that
  receives \<open>evs\<close>, or \<open>None\<close> when the start fails before the loop
  (then \<open>fst\<close> holds the lines written).\<close>

definition hMain :: "HStartup \<Rightarrow> hEvent list \<Rightarrow> str list \<times> HourlyState option" where
  "hMain su evs =
     (let cfg = hMain_cfg (hs_hostname su) (hs_username su) in
      case hs_logger su of
        Some err \<Rightarrow> ([], None)
      | None \<Rightarrow>
         (case getMousePos (hs_cursor su) of
            Inl err \<Rightarrow> ([StrCat ''GetCursorPos error: '' err], None)
          | Inr p \<Rightarrow>
              (let st = hRun cfg
                     (hWriteLine
                        (Sprintf ''[%s] START host=%s user=%s rqlite=%s''
                           [RFC3339 (hs_start_now su), S (HostName cfg), S (UserName cfg),
                            S (RqliteBaseURL cfg)])
                        \<lparr>hourStart = Truncate (hs_hour_now su) Hour,
                         idleSecondsInHour = 0.0, samplesInHour = 0,
                         hLastMouse = p, hLastMousePrint = 0, lastMouseMoveAt = 0,
                         hWritten = [], handedOver = []\<rparr>)
                     evs
               in (hWritten st, Some st))))"

text \<open>The bucket of the current hour.\<close>

definition bucket :: "HourlyState \<Rightarrow> Time \<times> real \<times> int" where
  "bucket st = (hourStart st, idleSecondsInHour st, samplesInHour st)"

text \<open>An invariant of the loop: the hours handed over so far increase strictly and lie
  before the hour of the current bucket.\<close>

definition keys_below :: "HourlyState \<Rightarrow> bool" where
  "keys_below st \<longleftrightarrow>
     sorted_wrt (<) (map row_hourStart (handedOver st))
     \<and> (\<forall>r \<in> set (handedOver st). row_hourStart r < hourStart st)"

text \<open>The request that \<^verbatim>\<open>rqliteExec\<close> builds for a marshalled body, and the HTTP
  exchange as a whole: marshalling, building the request, sending it.\<close>

definition postRequest :: "HConfig \<Rightarrow> string \<Rightarrow> Request" where
  "postRequest cfg body =
     \<lparr>req_method = ''POST'',
      req_url = RqliteBaseURL cfg @ ''/db/execute'',
      req_body = body,
      req_content_type = ''application/json'',
      req_basic_auth =
        (if RqliteUser cfg \<noteq> [] then Some (RqliteUser cfg, RqlitePass cfg) else None)\<rparr>"

definition exchange :: "HTTPEnv \<Rightarrow> HConfig \<Rightarrow> str list \<Rightarrow> error + Response" where
  "exchange env cfg stmts =
     (case json_Marshal env stmts of
        Inl err \<Rightarrow> Inl err
      | Inr body \<Rightarrow>
         (case http_NewRequest env ''POST'' (RqliteBaseURL cfg @ ''/db/execute'') body of
            Some err \<Rightarrow> Inl err
          | None \<Rightarrow> http_Do env (postRequest cfg body)))"

text \<open>
  The five failures that the specification lists for the upsert: the HTTP request
  itself fails, the status code is outside \<open>[200, 300)\<close>, the body cannot be parsed,
  the top-level error field is not empty, or the error field of some result is not
  empty.
\<close>

definition listed_failure :: "HTTPEnv \<Rightarrow> HConfig \<Rightarrow> str list \<Rightarrow> bool" where
  "listed_failure env cfg stmts =
     (case exchange env cfg stmts of
        Inl err \<Rightarrow> True
      | Inr resp \<Rightarrow>
          StatusCode resp < 200 \<or> StatusCode resp \<ge> 300
          \<or> (case json_Unmarshal env (Body resp) of
                Inl err \<Rightarrow> True
              | Inr parsed \<Rightarrow>
                  Error parsed \<noteq> [] \<or> (\<exists>r \<in> set (Results parsed). ResultError r \<noteq> [])))"

text \<open>Two worlds for examples: a store that answers 200 with an empty result, and a
  network that refuses the connection.\<close>

definition answering_env :: HTTPEnv where
  "answering_env =
     \<lparr>json_Marshal = (\<lambda>stmts. Inr ''[]''),
      http_NewRequest = (\<lambda>method url body. None),
      http_Do = (\<lambda>req. Inr \<lparr>StatusCode = 200, Status = ''200 OK'', Body = ''{}''\<rparr>),
      json_Unmarshal = (\<lambda>body. Inr \<lparr>Results = [], Error = []\<rparr>)\<rparr>"

definition refusing_env :: HTTPEnv where
  "refusing_env =
     \<lparr>json_Marshal = (\<lambda>stmts. Inr ''[]''),
      http_NewRequest = (\<lambda>method url body. None),
      http_Do = (\<lambda>req. Inl (Errno ''connection refused'')),
      json_Unmarshal = (\<lambda>body. Inr \<lparr>Results = [], Error = []\<rparr>)\<rparr>"

text \<open>A state of the hourly loop for examples: the bucket of hour 0 with 2000 idle
  seconds in 3600 samples.\<close>

definition full_hour :: HourlyState where
  "full_hour =
     \<lparr>hourStart = 0, idleSecondsInHour = 2000, samplesInHour = 3600,
      hLastMouse = \<lparr>X = 0, Y = 0\<rparr>, hLastMousePrint = 0, lastMouseMoveAt = 0,
      hWritten = [], handedOver = []\<rparr>"

section \<open>The rotating log writer\<close>

text \<open>
  The writer works on files. A path is \<^verbatim>\<open>filepath.Join(dir, name)\<close>. A file holds
  entries: whole lines, and fragments of lines left by writes that failed part-way.
  The disk holds the entries of every file that exists, the handles that are open, the
  number of handles opened so far (which names the next one), the system calls made
  so far in their order, and the largest number of handles that were ever open
  together. What depends on the operating system is an argument of the operation:
  whether \<^verbatim>\<open>os.OpenFile\<close> fails for a reason of its own (\<open>None\<close> when it does not), and
  how the write behind \<^verbatim>\<open>logger.Println\<close> ends. Each operation of the writer runs
  under its mutex, so operations are applied one after the other.
\<close>

datatype path = Join string string

text \<open>The flags of \<^verbatim>\<open>os.OpenFile\<close>; \<^verbatim>\<open>a|b|c\<close> is the list of the flags set.\<close>

datatype flag = O_RDONLY | O_WRONLY | O_RDWR | O_APPEND | O_CREATE | O_EXCL | O_TRUNC

datatype entry = Line str | Fragment str

text \<open>How a write ends: all of the line is written, the write fails after a part of
  it, or it fails with nothing written.\<close>

datatype write_outcome = WriteOk | WritePartial error | WriteFailed error

text \<open>An open handle: its path, whether writes go to the end of the file
  (\<^verbatim>\<open>O_APPEND\<close>), whether it may be written, and the position of the next write when
  it is not in append mode.\<close>

record Handle =
  h_path :: path
  h_append :: bool
  h_writable :: bool
  h_pos :: nat

datatype syscall =
    SysOpen path "flag list" nat
  | SysSync nat
  | SysClose nat
  | SysWrite nat

record Disk =
  files :: "path \<Rightarrow> entry list option"
  handles :: "(nat \<times> Handle) list"
  opened :: nat
  syscalls :: "syscall list"
  peak :: nat

text \<open>
  \<^verbatim>\<open>os.OpenFile(name, flags, perm)\<close>. A missing file is created only under
  \<^verbatim>\<open>O_CREATE\<close>; \<^verbatim>\<open>O_CREATE|O_EXCL\<close> refuses a file that exists; \<^verbatim>\<open>O_TRUNC\<close> empties it;
  otherwise its content stays.
\<close>

definition OpenFile ::
  "error option \<Rightarrow> path \<Rightarrow> flag list \<Rightarrow> nat \<Rightarrow> Disk \<Rightarrow> (error + nat) \<times> Disk" where
  "OpenFile failure name flags perm d =
     (let d0 = d\<lparr>syscalls := syscalls d @ [SysOpen name flags perm]\<rparr> in
      case failure of
        Some err \<Rightarrow> (Inl err, d0)
      | None \<Rightarrow>
          if files d name = None \<and> O_CREATE \<notin> set flags then
            (Inl (Errno ''The system cannot find the file specified.''), d0)
          else if files d name \<noteq> None \<and> O_CREATE \<in> set flags \<and> O_EXCL \<in> set flags then
            (Inl (Errno ''The file exists.''), d0)
          else
            (let content =
                   (case files d name of
                      None \<Rightarrow> []
                    | Some c \<Rightarrow> if O_TRUNC \<in> set flags then [] else c);
                 h = \<lparr>h_path = name,
                      h_append = (O_APPEND \<in> set flags),
                      h_writable = (O_WRONLY \<in> set flags \<or> O_RDWR \<in> set flags),
                      h_pos = 0\<rparr>;
                 hs = handles d @ [(opened d, h)]
             in (Inr (opened d),
                 d0\<lparr>files := (files d)(name \<mapsto> content),
                    handles := hs,
                    opened := opened d + 1,
                    peak := max (peak d) (length hs)\<rparr>)))"

text \<open>\<^verbatim>\<open>f.Close()\<close> releases the handle whether or not it reports an error, and
  \<^verbatim>\<open>f.Sync()\<close> changes nothing that is modelled; the source discards both errors.\<close>

definition CloseFile :: "nat \<Rightarrow> Disk \<Rightarrow> Disk" where
  "CloseFile f d =
     d\<lparr>handles := filter (\<lambda>hp. fst hp \<noteq> f) (handles d),
       syscalls := syscalls d @ [SysClose f]\<rparr>"

definition SyncFile :: "nat \<Rightarrow> Disk \<Rightarrow> Disk" where
  "SyncFile f d = d\<lparr>syscalls := syscalls d @ [SysSync f]\<rparr>"

text \<open>Putting an entry into the file of a handle: at the end in append mode, at the
  position of the handle otherwise.\<close>

definition put_entry :: "nat \<Rightarrow> Handle \<Rightarrow> entry \<Rightarrow> Disk \<Rightarrow> Disk" where
  "put_entry f h e d =
     (let c = (case files d (h_path h) of None \<Rightarrow> [] | Some c \<Rightarrow> c) in
      if h_append h then d\<lparr>files := (files d)(h_path h \<mapsto> c @ [e])\<rparr>
      else
        d\<lparr>files := (files d)(h_path h \<mapsto> take (h_pos h) c @ [e] @ drop (Suc (h_pos h)) c),
          handles := map (\<lambda>hp. if fst hp = f then (f, (snd hp)\<lparr>h_pos := h_pos (snd hp) + 1\<rparr>)
                                else hp) (handles d)\<rparr>)"

text \<open>The write behind \<^verbatim>\<open>r.logger.Println(line)\<close>; its error is discarded by the
  source.\<close>

definition WriteLine :: "write_outcome \<Rightarrow> nat \<Rightarrow> str \<Rightarrow> Disk \<Rightarrow> Disk" where
  "WriteLine outcome f line d =
     (let d0 = d\<lparr>syscalls := syscalls d @ [SysWrite f]\<rparr> in
      case map_of (handles d) f of
        None \<Rightarrow> d0
      | Some h \<Rightarrow>
          if \<not> h_writable h then d0
          else
            (case outcome of
               WriteOk \<Rightarrow> put_entry f h (Line line) d0
             | WritePartial err \<Rightarrow> put_entry f h (Fragment line) d0
             | WriteFailed err \<Rightarrow> d0))"

record RotatingLogger =
  r_dir :: string
  r_base :: string
  r_curDate :: string
  r_file :: "nat option"
  r_logger :: "nat option"

text \<open>\<^verbatim>\<open>filenameFor\<close> and \<^verbatim>\<open>rotateIfNeeded\<close> take the date \<^verbatim>\<open>now.Format("2006-01-02")\<close>
  in place of \<^verbatim>\<open>now\<close>.\<close>

definition filenameFor :: "RotatingLogger \<Rightarrow> string \<Rightarrow> path" where
  "filenameFor r d = Join (r_dir r) (r_base r @ ''-'' @ d @ ''.log'')"

text \<open>Closing the handle that is open, if any: the block \<^verbatim>\<open>if r.file != nil { ... }\<close>
  that \<^verbatim>\<open>rotateIfNeeded\<close> and \<^verbatim>\<open>Close\<close> share.\<close>

definition closeOld :: "RotatingLogger \<times> Disk \<Rightarrow> RotatingLogger \<times> Disk" where
  "closeOld rd =
     (case rd of (r, d) \<Rightarrow>
        (case r_file r of
           Some f \<Rightarrow> (r\<lparr>r_file := None, r_logger := None\<rparr>, CloseFile f (SyncFile f d))
         | None \<Rightarrow> (r, d)))"

text \<open>The permission \<^verbatim>\<open>0644\<close> is \<open>0x1A4\<close>.\<close>

definition rotateIfNeeded ::
  "error option \<Rightarrow> string \<Rightarrow> RotatingLogger \<times> Disk \<Rightarrow> error option \<times> RotatingLogger \<times> Disk" where
  "rotateIfNeeded failure date rd =
     (case rd of (r, d) \<Rightarrow>
        if date = r_curDate r \<and> r_file r \<noteq> None \<and> r_logger r \<noteq> None then (None, r, d)
        else
          (case closeOld (r, d) of (r1, d1) \<Rightarrow>
             (let path = filenameFor r1 date in
              case OpenFile failure path [O_CREATE, O_APPEND, O_WRONLY] 0x1A4 d1 of
                (Inl err, d2) \<Rightarrow> (Some err, r1, d2)
              | (Inr f, d2) \<Rightarrow>
                  (None, r1\<lparr>r_curDate := date, r_file := Some f, r_logger := Some f\<rparr>, d2))))"

definition NewRotatingLogger ::
  "error option \<Rightarrow> error option \<Rightarrow> string \<Rightarrow> string \<Rightarrow> string \<Rightarrow> Disk
     \<Rightarrow> (error + RotatingLogger) \<times> Disk" where
  "NewRotatingLogger mkdir_failure failure date dir base d =
     (case mkdir_failure of
        Some err \<Rightarrow> (Inl err, d)
      | None \<Rightarrow>
          (let rl = \<lparr>r_dir = dir, r_base = base, r_curDate = [], r_file = None,
                     r_logger = None\<rparr>
           in case rotateIfNeeded failure date (rl, d) of
                (Some err, r1, d1) \<Rightarrow> (Inl err, d1)
              | (None, r1, d1) \<Rightarrow> (Inr r1, d1)))"

definition Println ::
  "error option \<Rightarrow> write_outcome \<Rightarrow> string \<Rightarrow> str \<Rightarrow> RotatingLogger \<times> Disk
     \<Rightarrow> RotatingLogger \<times> Disk" where
  "Println failure outcome date line rd =
     (case rotateIfNeeded failure date rd of (err, r1, d1) \<Rightarrow>
        (case r_logger r1 of
           Some l \<Rightarrow> (r1, WriteLine outcome l line d1)
         | None \<Rightarrow> (r1, d1)))"

definition Sync :: "RotatingLogger \<times> Disk \<Rightarrow> RotatingLogger \<times> Disk" where
  "Sync rd =
     (case rd of (r, d) \<Rightarrow>
        (case r_file r of Some f \<Rightarrow> (r, SyncFile f d) | None \<Rightarrow> (r, d)))"

definition Close :: "RotatingLogger \<times> Disk \<Rightarrow> RotatingLogger \<times> Disk" where
  "Close rd = closeOld rd"

text \<open>The calls made on the writer, and a sequence of them.\<close>

datatype log_op =
    DoPrintln "error option" write_outcome string str
  | DoSync
  | DoClose

fun apply_op :: "log_op \<Rightarrow> RotatingLogger \<times> Disk \<Rightarrow> RotatingLogger \<times> Disk" where
  "apply_op (DoPrintln failure outcome date line) rd = Println failure outcome date line rd"
| "apply_op DoSync rd = Sync rd"
| "apply_op DoClose rd = Close rd"

definition apply_ops :: "log_op list \<Rightarrow> RotatingLogger \<times> Disk \<Rightarrow> RotatingLogger \<times> Disk" where
  "apply_ops ops rd = foldl (\<lambda>s op. apply_op op s) rd ops"

text \<open>The handle that the writer opens on a path: in append mode, for writing.\<close>

definition log_handle :: "path \<Rightarrow> Handle" where
  "log_handle p = \<lparr>h_path = p, h_append = True, h_writable = True, h_pos = 0\<rparr>"

text \<open>The invariant of the writer: never were two handles open together, and the
  handle it holds, if any, is the only handle open, in append mode on the file of the
  current date, which exists.\<close>

definition one_handle :: "RotatingLogger \<times> Disk \<Rightarrow> bool" where
  "one_handle rd \<longleftrightarrow>
     (case rd of (r, d) \<Rightarrow>
        r_logger r = r_file r
        \<and> peak d \<le> 1
        \<and> (case r_file r of
              None \<Rightarrow> handles d = []
            | Some f \<Rightarrow>
                handles d = [(f, log_handle (filenameFor r (r_curDate r)))]
                \<and> files d (filenameFor r (r_curDate r)) \<noteq> None))"

text \<open>No content is lost between two states of the disk: every file keeps its
  entries as a prefix.\<close>

definition kept :: "Disk \<Rightarrow> Disk \<Rightarrow> bool" where
  "kept d d' \<longleftrightarrow> (\<forall>p c. files d p = Some c \<longrightarrow> (\<exists>c'. files d' p = Some (c @ c')))"
section \<open>The formats of the log lines\<close>

text \<open>
  The way an argument is rendered, and the shape of a line: its format string with the
  kinds of its arguments. A line is timestamped when its format starts with
  \<^verbatim>\<open>[%s] \<close> and its first argument is the RFC 3339 rendering of a time.
\<close>

datatype kind = KString | KInt | KFloat | KError | KDuration | KTime | KTimeUTC | KHour

fun kind_of :: "fmt_arg \<Rightarrow> kind" where
  "kind_of (S s) = KString"
| "kind_of (D i) = KInt"
| "kind_of (F x) = KFloat"
| "kind_of (V e) = KError"
| "kind_of (Dur d) = KDuration"
| "kind_of (RFC3339 t) = KTime"
| "kind_of (RFC3339UTC t) = KTimeUTC"
| "kind_of (HourKey t) = KHour"

fun timestamped :: "str \<Rightarrow> bool" where
  "timestamped (Sprintf f (RFC3339 t # args)) = (take 5 f = ''[%s] '')"
| "timestamped l = False"

definition listed_formats :: "(string \<times> kind list) list" where
  "listed_formats =
     [(''[%s] START (logs in %s as %s-YYYY-MM-DD.log)'', [KTime, KString, KString]),
      (''[%s] MOUSE MOVE: (%d,%d) delta=(%d,%d)'', [KTime, KInt, KInt, KInt, KInt]),
      (''[%s] MODE CHANGE: %s  idleNow=%s  activeRatio=%.0f%%  samples=%d'',
         [KTime, KString, KDuration, KFloat, KInt]),
      (''[%s] STATUS: mode=%s  idleNow=%s  activeRatio=%.0f%%  samples=%d'',
         [KTime, KString, KDuration, KFloat, KInt]),
      (''[%s] STOP'', [KTime])]"

fun has_format :: "(string \<times> kind list) list \<Rightarrow> str \<Rightarrow> bool" where
  "has_format fs (Sprintf f args) = ((f, map kind_of args) \<in> set fs)"
| "has_format fs (StrCat lit err) = False"

definition listed_line :: "str \<Rightarrow> bool" where
  "listed_line l = has_format listed_formats l"

definition query_error_formats :: "(string \<times> kind list) list" where
  "query_error_formats =
     [(''[%s] GetCursorPos error: %v'', [KTime, KError]),
      (''[%s] GetLastInputInfo error: %v'', [KTime, KError])]"

fun query_error_line :: "str \<Rightarrow> bool" where
  "query_error_line (StrCat lit err) = (lit = ''GetCursorPos error: '')"
| "query_error_line l = has_format query_error_formats l"

definition hourly_formats :: "(string \<times> kind list) list" where
  "hourly_formats =
     [(''[%s] START host=%s user=%s rqlite=%s'', [KTime, KString, KString, KString]),
      (''[%s] STOP'', [KTime]),
      (''[%s] RQLITE insert error: %v'', [KTime, KError]),
      (''[%s] RQLITE insert ok: hour=%s activity=%.0f%% idleSeconds=%.0f samples=%d status=%s'',
         [KTime, KHour, KFloat, KFloat, KInt, KString]),
      (''[%s] GetCursorPos error: %v'', [KTime, KError]),
      (''[%s] EVENT=MOUSE_MOVE pos=(%d,%d) prevMouseMoveAt=%s idleNow=%s'',
         [KTime, KInt, KInt, KString, KString]),
      (''[%s] EVENT=MOUSE_MOVE pos=(%d,%d) prevMouseMoveAt=%s idleNow=%s'',
         [KTime, KInt, KInt, KString, KDuration]),
      (''[%s] EVENT=MOUSE_MOVE pos=(%d,%d) prevMouseMoveAt=%s idleNow=%s'',
         [KTime, KInt, KInt, KTimeUTC, KString]),
      (''[%s] EVENT=MOUSE_MOVE pos=(%d,%d) prevMouseMoveAt=%s idleNow=%s'',
         [KTime, KInt, KInt, KTimeUTC, KDuration])]"

fun hourly_line :: "str \<Rightarrow> bool" where
  "hourly_line (StrCat lit err) = (lit = ''GetCursorPos error: '')"
| "hourly_line l = has_format hourly_formats l"

fun queries_succeed :: "event \<Rightarrow> bool" where
  "queries_succeed (SampleTick now cq iq) = (cur_r1 cq \<noteq> 0 \<and> lii_r1 iq \<noteq> 0)"
| "queries_succeed e = True"

definition window_line :: "str \<Rightarrow> bool" where
  "window_line l \<longleftrightarrow> listed_line l \<or> query_error_line l"

section \<open>Worlds and states for examples\<close>

definition failing_cursor :: CursorQuery where
  "failing_cursor = \<lparr>cur_r1 = 0, cur_err = Errno ''Access is denied.'', cur_p = \<lparr>X = 0, Y = 0\<rparr>\<rparr>"

definition failing_idle :: IdleQuery where
  "failing_idle = \<lparr>lii_r1 = 0, lii_err = Errno ''Access is denied.'', lii_DwTime = 0, tick64 = 0\<rparr>"

definition resting_cursor :: CursorQuery where
  "resting_cursor = \<lparr>cur_r1 = 1, cur_err = Errno ''The operation completed successfully.'', cur_p = \<lparr>X = 0, Y = 0\<rparr>\<rparr>"

definition recent_input :: IdleQuery where
  "recent_input = \<lparr>lii_r1 = 1, lii_err = Errno ''The operation completed successfully.'',
                    lii_DwTime = 1000, tick64 = 1500\<rparr>"

definition fresh_loop :: LoopState where
  "fresh_loop = \<lparr>lastMouse = \<lparr>X = 0, Y = 0\<rparr>, samples = [], lastMode = [],
                  lastStatusPrint = 0, lastMousePrint = 0, written = []\<rparr>"

definition quiet_start :: Startup where
  "quiet_start = \<lparr>su_logger = None, su_cursor = resting_cursor, su_now = 4 * Second\<rparr>"

definition blind_start :: Startup where
  "blind_start = \<lparr>su_logger = None, su_cursor = failing_cursor, su_now = 4 * Second\<rparr>"

definition plain_hstart :: HStartup where
  "plain_hstart = \<lparr>hs_hostname = ''host'', hs_username = ''user'', hs_logger = None,
      hs_cursor = resting_cursor, hs_hour_now = 4 * Second, hs_start_now = 4 * Second\<rparr>"

text \<open>The writer and the disk after a start on an empty disk on the first day.\<close>

definition day_one :: "RotatingLogger \<times> Disk" where
  "day_one =
     (\<lparr>r_dir = ''logs'', r_base = ''activity'', r_curDate = ''2024-01-01'',
       r_file = Some 0, r_logger = Some 0\<rparr>,
      \<lparr>files = [Join ''logs'' ''activity-2024-01-01.log'' \<mapsto> []],
       handles = [(0, log_handle (Join ''logs'' ''activity-2024-01-01.log''))],
       opened = 1,
       syscalls = [SysOpen (Join ''logs'' ''activity-2024-01-01.log'')
                     [O_CREATE, O_APPEND, O_WRONLY] 0x1A4],
       peak = 1\<rparr>)"

definition empty_disk :: Disk where
  "empty_disk = \<lparr>files = (\<lambda>p. None), handles = [], opened = 0, syscalls = [], peak = 0\<rparr>"

text \<open>A disk at the start of a process, after a stop in the course of a day: the
  file of the day exists and no handle is open.\<close>

definition restart_disk :: Disk where
  "restart_disk =
     \<lparr>files = [Join ''logs'' ''activity-2024-01-01.log'' \<mapsto>
                 [Line (Sprintf ''[%s] STOP'' [RFC3339 1])]],
      handles = [], opened = 0, syscalls = [], peak = 0\<rparr>"
section \<open>Facts about the idle duration\<close>

lemma DwTime_bound: "unat (d :: 32 word) < 2 ^ 32"
  using unsigned_less [of d, where 'a = nat] by simp

lemma now32_unat: "unat ((w :: 64 word) AND 0xFFFFFFFF) = unat w mod 2 ^ 32"
proof -
  have "(w AND 0xFFFFFFFF) = take_bit 32 w"
    by (simp add: take_bit_eq_mask mask_eq_exp_minus_1)
  moreover have "unat (take_bit 32 w) = unat w mod 2 ^ 32"
    unfolding unsigned_take_bit_eq by (simp add: take_bit_eq_mod)
  ultimately show ?thesis by (simp only:)
qed

lemma last_unat: "unat (ucast (d :: 32 word) :: 64 word) = unat d"
  using DwTime_bound [of d] by (simp add: unsigned_ucast_eq take_bit_eq_mod)

lemma wrapped_branch:
  fixes n l :: "64 word"
  assumes "unat n < 2 ^ 32" "unat l < 2 ^ 32" "unat n < unat l"
  shows "unat ((0x100000000 - l) + n) = (2 ^ 32 - unat l) + unat n"
proof -
  have a: "unat (0x100000000 - l) = 2 ^ 32 - unat l"
    using assms by (subst unat_sub) (simp_all add: word_le_nat_alt)
  have "unat ((0x100000000 - l) + n) = unat (0x100000000 - l) + unat n"
    using assms a by (subst unat_add_lem [THEN iffD1]) simp_all
  with a show ?thesis by simp
qed

lemma idleMillis_unat:
  "unat (idleMillis tk dw) =
     (if unat tk mod 2 ^ 32 < unat dw
      then (2 ^ 32 - unat dw) + unat tk mod 2 ^ 32
      else unat tk mod 2 ^ 32 - unat dw)"
proof -
  let ?n = "tk AND 0xFFFFFFFF" and ?l = "ucast dw :: 64 word"
  have n: "unat ?n = unat tk mod 2 ^ 32" by (rule now32_unat)
  have l: "unat ?l = unat dw" by (rule last_unat)
  have lb: "unat dw < 2 ^ 32" by (rule DwTime_bound)
  have nb: "unat tk mod 2 ^ 32 < (2 ^ 32 :: nat)" by simp
  show ?thesis
  proof (cases "?l \<le> ?n")
    case True
    then have le: "unat dw \<le> unat tk mod 2 ^ 32"
      by (simp add: word_le_nat_alt n l)
    have "unat (?n - ?l) = unat ?n - unat ?l"
      using True by (simp add: unat_sub)
    with True le show ?thesis
      by (simp add: idleMillis_def Let_def n l)
  next
    case False
    then have lt: "unat tk mod 2 ^ 32 < unat dw"
      by (simp add: word_le_nat_alt n l)
    have "unat ((0x100000000 - ?l) + ?n) = (2 ^ 32 - unat ?l) + unat ?n"
      using lb nb lt by (intro wrapped_branch) (simp_all add: n l)
    with False lt show ?thesis
      by (simp add: idleMillis_def Let_def n l)
  qed
qed

lemma idleMillis_lt: "unat (idleMillis tk dw) < 2 ^ 32"
proof -
  define m where "m = unat tk mod 2 ^ 32"
  have "m < 2 ^ 32" by (simp add: m_def)
  with DwTime_bound [of dw] show ?thesis
    unfolding idleMillis_unat m_def [symmetric] by auto
qed

lemma idleMillis_mod:
  "int (unat (idleMillis tk dw)) = (int (unat tk mod 2 ^ 32) - int (unat dw)) mod 2 ^ 32"
proof -
  define m where "m = unat tk mod 2 ^ 32"
  define d where "d = unat dw"
  have mb: "m < 2 ^ 32" by (simp add: m_def)
  have db: "d < 2 ^ 32" unfolding d_def by (rule DwTime_bound)
  have u: "unat (idleMillis tk dw) = (if m < d then (2 ^ 32 - d) + m else m - d)"
    unfolding m_def d_def by (rule idleMillis_unat)
  show ?thesis
  proof (cases "m < d")
    case True
    have "(int m - int d) mod 2 ^ 32 = (int m - int d + 2 ^ 32) mod 2 ^ 32"
      by simp
    also have "\<dots> = int m - int d + 2 ^ 32"
      using True db by (intro mod_pos_pos_trivial) simp_all
    finally show ?thesis
      using True db unfolding u m_def [symmetric] d_def [symmetric] by simp
  next
    case False
    have "(int m - int d) mod 2 ^ 32 = int m - int d"
      using False mb by (intro mod_pos_pos_trivial) simp_all
    then show ?thesis
      using False unfolding u m_def [symmetric] d_def [symmetric] by simp
  qed
qed

lemma duration_no_overflow:
  "sint (idleMillis tk dw * 1000000) = int (unat (idleMillis tk dw)) * 1000000"
proof -
  define m where "m = idleMillis tk dw"
  have b: "unat m < 2 ^ 32" unfolding m_def by (rule idleMillis_lt)
  have e: "unat (m * 1000000) = unat m * 1000000"
    using b by (subst unat_mult_lem [THEN iffD1]) simp_all
  have u: "uint (m * 1000000) = uint m * 1000000"
    using arg_cong [OF e, of int] by simp
  have ub: "uint m < 2 ^ 32"
    using b unfolding unat_eq_nat_uint
    by (simp only: nat_less_iff [OF uint_ge_0] of_nat_power of_nat_numeral)
  have lo: "- (2 ^ (LENGTH(64) - Suc 0)) \<le> uint m * 1000000"
    by (rule order_trans [of _ 0]) simp_all
  have hi: "uint m * 1000000 < 2 ^ (LENGTH(64) - Suc 0)"
    using ub by simp
  have "sint (m * 1000000) = uint (m * 1000000)"
    unfolding sint_uint u using lo hi
    by (rule signed_take_bit_int_eq_self)
  with u show ?thesis unfolding m_def by simp
qed

text \<open>
  C4. When the query succeeds, the idle duration that \<^verbatim>\<open>getIdleDuration\<close> returns is
  the number of milliseconds given by the wraparound rule: when the low 32 bits of the
  current tick are below the tick of the last input, \<open>(2^32 - last) + now\<close>,
  otherwise \<open>now - last\<close>, read as natural numbers (no step of the 64-bit computation
  wraps); when the query fails, its error is returned. With \<open>last = 0xFFFFFFF0\<close> and
  \<open>now = 0x00000010\<close> the result is exactly \<open>0x20\<close> milliseconds.
\<close>

theorem idleMillis_wraparound_rule:
  "(lii_r1 q \<noteq> 0 \<longrightarrow>
      getIdleDuration q =
        Inr (int (if unat (tick64 q) mod 2 ^ 32 < unat (lii_DwTime q)
                  then (2 ^ 32 - unat (lii_DwTime q)) + unat (tick64 q) mod 2 ^ 32
                  else unat (tick64 q) mod 2 ^ 32 - unat (lii_DwTime q)) * Millisecond))
   \<and> (lii_r1 q = 0 \<longrightarrow> getIdleDuration q = Inl (lii_err q))
   \<and> unat (idleMillis tk dw) =
     (if unat tk mod 2 ^ 32 < unat dw
      then (2 ^ 32 - unat dw) + unat tk mod 2 ^ 32
      else unat tk mod 2 ^ 32 - unat dw)
   \<and> idleMillis 0x00000010 0xFFFFFFF0 = 0x20
   \<and> getIdleDuration \<lparr>lii_r1 = 1, lii_err = Errno [], lii_DwTime = 0xFFFFFFF0,
                        tick64 = 0x00000010\<rparr> = Inr (0x20 * Millisecond)"
proof -
  have a: "lii_r1 q \<noteq> 0 \<longrightarrow>
      getIdleDuration q =
        Inr (int (if unat (tick64 q) mod 2 ^ 32 < unat (lii_DwTime q)
                  then (2 ^ 32 - unat (lii_DwTime q)) + unat (tick64 q) mod 2 ^ 32
                  else unat (tick64 q) mod 2 ^ 32 - unat (lii_DwTime q)) * Millisecond)"
  proof
    assume "lii_r1 q \<noteq> 0"
    then have "getIdleDuration q
        = Inr (sint (idleMillis (tick64 q) (lii_DwTime q) * 1000000))"
      by (simp add: getIdleDuration_def)
    then show "getIdleDuration q =
        Inr (int (if unat (tick64 q) mod 2 ^ 32 < unat (lii_DwTime q)
                  then (2 ^ 32 - unat (lii_DwTime q)) + unat (tick64 q) mod 2 ^ 32
                  else unat (tick64 q) mod 2 ^ 32 - unat (lii_DwTime q)) * Millisecond)"
      by (simp only: duration_no_overflow idleMillis_unat Millisecond_def)
  qed
  have b: "lii_r1 q = 0 \<longrightarrow> getIdleDuration q = Inl (lii_err q)"
    by (simp add: getIdleDuration_def)
  have c: "unat (idleMillis tk dw) =
     (if unat tk mod 2 ^ 32 < unat dw
      then (2 ^ 32 - unat dw) + unat tk mod 2 ^ 32
      else unat tk mod 2 ^ 32 - unat dw)"
    by (rule idleMillis_unat)
  have d: "idleMillis 0x00000010 0xFFFFFFF0 = 0x20"
    by (simp add: idleMillis_def)
  have e: "getIdleDuration \<lparr>lii_r1 = 1, lii_err = Errno [], lii_DwTime = 0xFFFFFFF0,
                        tick64 = 0x00000010\<rparr> = Inr (0x20 * Millisecond)"
    by (simp add: getIdleDuration_def d Millisecond_def)
  from a b c d e show ?thesis by blast
qed

theorem idleMillis_wraparound_rule_witness:
  "lii_r1 \<lparr>lii_r1 = 1, lii_err = Errno [], lii_DwTime = 0xFFFFFFF0, tick64 = 0x00000010\<rparr> \<noteq> 0
   \<and> getIdleDuration \<lparr>lii_r1 = 1, lii_err = Errno [], lii_DwTime = 0xFFFFFFF0,
                        tick64 = 0x00000010\<rparr> = Inr (32 * Millisecond)
   \<and> getIdleDuration \<lparr>lii_r1 = 1, lii_err = Errno [], lii_DwTime = 1000,
                        tick64 = 0x700000000 + 1500\<rparr> = Inr (500 * Millisecond)
   \<and> lii_r1 \<lparr>lii_r1 = 0, lii_err = Errno ''Access is denied.'', lii_DwTime = 7,
              tick64 = 9\<rparr> = 0
   \<and> getIdleDuration \<lparr>lii_r1 = 0, lii_err = Errno ''Access is denied.'', lii_DwTime = 7,
                        tick64 = 9\<rparr> = Inl (Errno ''Access is denied.'')"
  using idleMillis_wraparound_rule [of "\<lparr>lii_r1 = 1, lii_err = Errno [],
      lii_DwTime = 0xFFFFFFF0, tick64 = 0x00000010\<rparr>"]
    idleMillis_wraparound_rule [of "\<lparr>lii_r1 = 1, lii_err = Errno [],
      lii_DwTime = 1000, tick64 = 0x700000000 + 1500\<rparr>"]
    idleMillis_wraparound_rule [of "\<lparr>lii_r1 = 0, lii_err = Errno ''Access is denied.'',
      lii_DwTime = 7, tick64 = 9\<rparr>"]
  by simp

text \<open>
  C10. When the query succeeds, \<^verbatim>\<open>getIdleDuration\<close> returns
  \<open>((now mod 2^32) - last) mod 2^32\<close> milliseconds: a duration that is never negative
  and always below \<open>2^32\<close> milliseconds (about 49.7 days).
\<close>

theorem getIdleDuration_mod_2_32:
  assumes "lii_r1 q \<noteq> 0"
  shows "\<exists>d. getIdleDuration q = Inr d
           \<and> d = ((int (unat (tick64 q) mod 2 ^ 32) - int (unat (lii_DwTime q))) mod 2 ^ 32)
                   * Millisecond
           \<and> 0 \<le> d \<and> d < 2 ^ 32 * Millisecond"
proof -
  let ?ms = "(int (unat (tick64 q) mod 2 ^ 32) - int (unat (lii_DwTime q))) mod 2 ^ 32"
  have r: "getIdleDuration q = Inr (?ms * Millisecond)"
    using assms
    by (simp only: getIdleDuration_def duration_no_overflow idleMillis_mod Millisecond_def
        if_False)
  have "0 \<le> ?ms" and "?ms < 2 ^ 32" by simp_all
  then have "0 \<le> ?ms * Millisecond" and "?ms * Millisecond < 2 ^ 32 * Millisecond"
    by (simp_all add: Millisecond_def)
  with r show ?thesis by blast
qed

theorem getIdleDuration_mod_2_32_witness:
  "getIdleDuration \<lparr>lii_r1 = 1, lii_err = Errno [], lii_DwTime = 0xFFFFFFF0,
                     tick64 = 0x500000010\<rparr> = Inr (32 * Millisecond)"
proof -
  let ?q = "\<lparr>lii_r1 = 1, lii_err = Errno [], lii_DwTime = 0xFFFFFFF0,
             tick64 = 0x500000010\<rparr>"
  have "lii_r1 ?q \<noteq> 0" by simp
  from getIdleDuration_mod_2_32 [OF this] show ?thesis by simp
qed

section \<open>Facts about the sliding window\<close>

lemma dropIndex_takeWhile:
  "i \<le> length xs \<Longrightarrow>
   dropIndex xs c i = i + length (takeWhile (\<lambda>s. Before (s_t s) c) (drop i xs))"
proof (induction xs c i rule: dropIndex.induct)
  case (1 samples cutoff i)
  show ?case
  proof (cases "i < length samples \<and> Before (s_t (samples ! i)) cutoff")
    case True
    then have d: "drop i samples = samples ! i # drop (Suc i) samples"
      by (simp add: Cons_nth_drop_Suc)
    from True have "dropIndex samples cutoff i = dropIndex samples cutoff (i + 1)"
      by (subst dropIndex.simps) simp
    also have "\<dots> = (i + 1)
        + length (takeWhile (\<lambda>s. Before (s_t s) cutoff) (drop (i + 1) samples))"
      using True by (intro "1.IH") simp_all
    finally show ?thesis using True by (simp add: d)
  next
    case False
    then have r: "dropIndex samples cutoff i = i"
      by (subst dropIndex.simps) auto
    show ?thesis
    proof (cases "i < length samples")
      case True
      with False have "\<not> Before (s_t (samples ! i)) cutoff" by simp
      moreover from True have "drop i samples = samples ! i # drop (Suc i) samples"
        by (simp add: Cons_nth_drop_Suc)
      ultimately show ?thesis by (simp add: r)
    next
      case False
      then show ?thesis by (simp add: r)
    qed
  qed
qed

lemma drop_dropIndex:
  "drop (dropIndex xs c 0) xs = dropWhile (\<lambda>s. Before (s_t s) c) xs"
  by (simp add: dropIndex_takeWhile dropWhile_eq_drop)

lemma Push_dropWhile:
  "Push cfg now a w =
     dropWhile (\<lambda>s. s_t s < now - WindowSize cfg) (w @ [\<lparr>s_t = now, s_active = a\<rparr>])"
proof -
  let ?xs = "w @ [\<lparr>s_t = now, s_active = a\<rparr>]" and ?c = "Add now (- WindowSize cfg)"
  have "Push cfg now a w = drop (dropIndex ?xs ?c 0) ?xs"
    by (simp add: Push_def Let_def)
  also have "\<dots> = dropWhile (\<lambda>s. Before (s_t s) ?c) ?xs"
    by (rule drop_dropIndex)
  finally show ?thesis by (simp add: Before_def Add_def)
qed








text \<open>
  C2. The mode is a function of \<open>(idleNow, activeRatio, thresholds)\<close> alone, decided in
  a fixed order with the first match winning, and the comparisons are inclusive: below
  the continuous-idle threshold, a ratio of exactly 0.60 against
  \<open>HighProductiveRatio = 0.60\<close> gives \<open>HighProductive\<close>. The three modes are distinct
  values.
\<close>

theorem modeFrom_priority_order:
  "modeFrom idleNow activeRatio cfg =
     (if idleNow \<ge> ContinuousIdleThreshold cfg then ModeIdle
      else if activeRatio \<ge> HighProductiveRatio cfg then ModeHighProductive
      else if activeRatio \<ge> SimpleProductiveRatio cfg then ModeSimpleProductive
      else ModeIdle)
   \<and> (idleNow < ContinuousIdleThreshold cfg \<and> HighProductiveRatio cfg = 0.60
        \<longrightarrow> modeFrom idleNow 0.60 cfg = ModeHighProductive)
   \<and> ModeHighProductive \<noteq> ModeSimpleProductive
   \<and> ModeHighProductive \<noteq> ModeIdle
   \<and> ModeSimpleProductive \<noteq> ModeIdle"
  by (simp add: modeFrom_def ModeHighProductive_def ModeSimpleProductive_def ModeIdle_def)

theorem modeFrom_priority_order_witness:
  "29 * Minute < ContinuousIdleThreshold main_cfg
   \<and> HighProductiveRatio main_cfg = 0.60
   \<and> modeFrom (29 * Minute) 0.60 main_cfg = ''HIGH_PRODUCTIVE''"
  using modeFrom_priority_order [of "29 * Minute" "0.60" main_cfg]
  by (simp add: ModeHighProductive_def main_cfg_def Minute_def Second_def Millisecond_def)

section \<open>Facts about the hourly aggregation\<close>

lemma sealedActivityPct_clamp:
  "sealedActivityPct idle n =
     (if n > 0 then (1 - min 1 (max 0 (idle / 3600))) * 100 else 0)"
  by (simp add: sealedActivityPct_def Let_def min_def max_def)

lemma sealed_example: "sealedActivityPct 2000 3600 = 400 / 9"
  by (simp add: sealedActivityPct_def Let_def)

lemma rollover_bucket:
  "After (Truncate now Hour) (hourStart st) \<Longrightarrow>
   bucket (rollover env cfg now st) = (Truncate now Hour, 0, 0)"
  by (simp add: rollover_def Let_def bucket_def hWriteLine_def split: option.splits)

lemma rollover_handedOver:
  "After (Truncate now Hour) (hourStart st) \<Longrightarrow>
   handedOver (rollover env cfg now st) = handedOver st @
     [\<lparr>row_hourStart = hourStart st,
       row_activityPct = sealedActivityPct (idleSecondsInHour st) (samplesInHour st),
       row_idleSeconds = idleSecondsInHour st,
       row_samples = samplesInHour st,
       row_status = statusFor (sealedActivityPct (idleSecondsInHour st) (samplesInHour st))
                      (samplesInHour st),
       row_createdAt = now\<rparr>]"
  by (simp add: rollover_def Let_def hWriteLine_def split: option.splits)

lemma rollover_same_hour:
  "\<not> After (Truncate now Hour) (hourStart st) \<Longrightarrow> rollover env cfg now st = st"
  by (simp add: rollover_def Let_def)

lemma rollover_keys: "keys_below st \<Longrightarrow> keys_below (rollover env cfg now st)"
proof (cases "After (Truncate now Hour) (hourStart st)")
  case True
  assume k: "keys_below st"
  from True have lt: "hourStart st < Truncate now Hour" by (simp add: After_def)
  have h: "hourStart (rollover env cfg now st) = Truncate now Hour"
    using rollover_bucket [OF True, of env cfg] by (simp add: bucket_def)
  show ?thesis
    using k lt unfolding keys_below_def h rollover_handedOver [OF True]
    by (auto simp: sorted_wrt_append)
next
  case False
  assume "keys_below st"
  then show ?thesis by (simp add: rollover_same_hour [OF False])
qed

lemma poll_idle_keys: "keys_below st \<Longrightarrow> keys_below (snd (poll_idle cfg iq st))"
  by (simp add: poll_idle_def keys_below_def split: sum.splits)

lemma log_mouse_keys: "keys_below st \<Longrightarrow> keys_below (log_mouse cfg now cq idleStr st)"
  by (simp add: log_mouse_def keys_below_def Let_def hWriteLine_def split: sum.splits)

lemma hTick_keys: "keys_below st \<Longrightarrow> keys_below (hTick cfg now env cq iq st)"
  by (simp add: hTick_def Let_def split_beta log_mouse_keys poll_idle_keys [simplified]
      rollover_keys del: split_paired_All)

lemma hRun_keys: "keys_below st \<Longrightarrow> keys_below (hRun cfg st evs)"
proof (induction evs arbitrary: st)
  case Nil
  then show ?case by simp
next
  case (Cons e evs)
  then show ?case
    by (cases e) (simp_all add: hTick_keys, simp add: keys_below_def hWriteLine_def)
qed

lemma firstResultError_None:
  "firstResultError i rs = None \<longleftrightarrow> (\<forall>r \<in> set rs. ResultError r = [])"
  by (induction rs arbitrary: i) auto

lemma rqliteExec_None_iff:
  "rqliteExec env cfg stmts = None \<longleftrightarrow>
     \<not> (RqliteBaseURL cfg = [] \<or> listed_failure env cfg stmts)"
  by (simp add: rqliteExec_def listed_failure_def exchange_def postRequest_def Let_def
      firstResultError_None split: sum.splits option.splits)

lemma full_hour_rolls: "After (Truncate (Hour + 5) Hour) (hourStart full_hour)"
  by (simp add: After_def Truncate_def Hour_def Minute_def Second_def Millisecond_def
      full_hour_def)

lemma hTick_hours:
  "handedOver (hTick cfg now env cq iq st) = handedOver (rollover env cfg now st)"
  "hourStart (hTick cfg now env cq iq st) = hourStart (rollover env cfg now st)"
  by (simp_all add: hTick_def Let_def split_beta poll_idle_def log_mouse_def hWriteLine_def
      split: sum.splits)

lemma two_hours:
  "map row_hourStart (handedOver (hRun (hMain_cfg ''host'' ''user'') full_hour
      [HSampleTick (Hour + 5) refusing_env resting_cursor recent_input,
       HFlushTick,
       HSampleTick (2 * Hour + 5) answering_env resting_cursor recent_input]))
   = [0, Hour]"
proof -
  let ?cfg = "hMain_cfg ''host'' ''user''"
  let ?st1 = "hTick ?cfg (Hour + 5) refusing_env resting_cursor recent_input full_hour"
  have t1: "Truncate (Hour + 5) Hour = Hour"
    by (simp add: Truncate_def Hour_def Minute_def Second_def Millisecond_def)
  have t2: "Truncate (2 * Hour + 5) Hour = 2 * Hour"
    by (simp add: Truncate_def Hour_def Minute_def Second_def Millisecond_def)
  have h: "(0 :: int) < Hour"
    by (simp add: Hour_def Minute_def Second_def Millisecond_def)
  have a1: "After (Truncate (Hour + 5) Hour) (hourStart full_hour)"
    by (rule full_hour_rolls)
  have s1: "hourStart (rollover refusing_env ?cfg (Hour + 5) full_hour) = Hour"
    using rollover_bucket [OF a1, of refusing_env ?cfg]
    by (simp add: bucket_def t1)
  have f: "hourStart full_hour = 0" "handedOver full_hour = []"
    by (simp_all add: full_hour_def)
  have k1: "map row_hourStart (handedOver (rollover refusing_env ?cfg (Hour + 5) full_hour))
      = [0]"
    by (simp add: rollover_handedOver [OF a1] f)
  have a2: "After (Truncate (2 * Hour + 5) Hour) (hourStart ?st1)"
    using h by (simp add: hTick_hours s1 t2 After_def)
  show ?thesis
    by (simp add: hTick_hours rollover_handedOver [OF a2] k1 s1)
qed

text \<open>
  C3, as stated, fails on the bucket with no sample and no idle second: the formula
  gives 100, the rollover computes 0.
\<close>

theorem sealing_empty_bucket_counterexample:
  "sealedActivityPct 0 0 \<noteq> (1 - min 1 (max 0 (0 / 3600))) * 100"
  by (simp add: sealedActivityPct_def)

text \<open>
  C3, amended. Sealing at the hour boundary computes
  \<open>activityPct = (1 - clamp(idleSeconds/3600, 0, 1)) * 100\<close> when the bucket holds at
  least one sample, and 0 when it holds none; the status is \<open>OFF\<close> if the sample count
  is 0 or the percentage is exactly 0, else \<open>LOW\<close> below 50, else \<open>ACTIVE\<close> below 60,
  else \<open>HIGH_PRODUCTION\<close>; the row handed over at the rollover carries these two
  values; and 2000 idle seconds with 3600 samples give about 44.4 and \<open>LOW\<close>.
\<close>

theorem sealing_at_rollover:
  "(n > 0 \<longrightarrow> sealedActivityPct idle n = (1 - min 1 (max 0 (idle / 3600))) * 100)
   \<and> (n \<le> 0 \<longrightarrow> sealedActivityPct idle n = 0)
   \<and> statusFor pct n =
       (if n = 0 \<or> pct = 0 then ''OFF''
        else if pct < 50 then ''LOW''
        else if pct < 60 then ''ACTIVE''
        else ''HIGH_PRODUCTION'')
   \<and> (After (Truncate now Hour) (hourStart st) \<longrightarrow>
        row_activityPct (last (handedOver (rollover env cfg now st)))
          = sealedActivityPct (idleSecondsInHour st) (samplesInHour st)
        \<and> row_status (last (handedOver (rollover env cfg now st)))
          = statusFor (sealedActivityPct (idleSecondsInHour st) (samplesInHour st))
              (samplesInHour st))
   \<and> 44.4 < sealedActivityPct 2000 3600 \<and> sealedActivityPct 2000 3600 < 44.5
   \<and> statusFor (sealedActivityPct 2000 3600) 3600 = ''LOW''"
  by (simp add: sealedActivityPct_clamp sealed_example [unfolded sealedActivityPct_clamp]
      statusFor_def rollover_handedOver)

theorem sealing_at_rollover_witness:
  "(3600 :: int) > 0
   \<and> sealedActivityPct 2000 3600 = 400 / 9
   \<and> sealedActivityPct 2000 0 = 0
   \<and> After (Truncate (Hour + 5) Hour) (hourStart full_hour)
   \<and> row_activityPct (last (handedOver
         (rollover answering_env (hMain_cfg ''host'' ''user'') (Hour + 5) full_hour)))
       = 400 / 9
   \<and> row_status (last (handedOver
         (rollover answering_env (hMain_cfg ''host'' ''user'') (Hour + 5) full_hour)))
       = ''LOW''"
proof -
  have a: "idleSecondsInHour full_hour = 2000"
    by (simp add: full_hour_def)
  have b: "samplesInHour full_hour = 3600"
    by (simp add: full_hour_def)
  have z: "sealedActivityPct 2000 0 = 0"
    by (simp add: sealedActivityPct_def)
  from sealing_at_rollover [of 3600 2000 0 "Hour + 5" full_hour answering_env
      "hMain_cfg ''host'' ''user''"]
    sealing_at_rollover [of 0 2000 0 "Hour + 5" full_hour answering_env
      "hMain_cfg ''host'' ''user''"]
    full_hour_rolls
  show ?thesis
    by (simp add: a b z sealed_example statusFor_def)
qed

text \<open>
  C5. At a rollover the sealed bucket is handed over once, and the bucket is then
  reset to the new hour with no idle second and no sample, whatever the remote store
  answers: the state of the bucket after the hand-over is the same on the success
  path and on the failure path. Over a whole run the hours handed over are pairwise
  distinct, so that no bucket is handed over a second time.
\<close>

theorem bucket_reset_whatever_the_upload:
  assumes "After (Truncate now Hour) (hourStart st)"
  shows "bucket (rollover env cfg now st) = (Truncate now Hour, 0, 0)
       \<and> bucket (rollover env' cfg now st) = bucket (rollover env cfg now st)
       \<and> length (handedOver (rollover env cfg now st)) = length (handedOver st) + 1
       \<and> row_hourStart (last (handedOver (rollover env cfg now st))) = hourStart st
       \<and> (handedOver st0 = [] \<longrightarrow>
            distinct (map row_hourStart (handedOver (hRun cfg st0 evs))))"
proof -
  have "handedOver st0 = [] \<Longrightarrow> keys_below st0"
    by (simp add: keys_below_def)
  then have "handedOver st0 = [] \<Longrightarrow> keys_below (hRun cfg st0 evs)"
    by (rule hRun_keys)
  then have "handedOver st0 = [] \<Longrightarrow>
      distinct (map row_hourStart (handedOver (hRun cfg st0 evs)))"
    unfolding keys_below_def by (auto dest: strict_sorted_imp_sorted simp: strict_sorted_iff)
  then show ?thesis
    by (simp add: rollover_bucket [OF assms] rollover_handedOver [OF assms])
qed

theorem bucket_reset_whatever_the_upload_witness:
  "After (Truncate (Hour + 5) Hour) (hourStart full_hour)
   \<and> insertHourly answering_env (hMain_cfg ''host'' ''user'') 0 (400 / 9) 2000 3600 ''LOW''
       (Hour + 5) = None
   \<and> insertHourly refusing_env (hMain_cfg ''host'' ''user'') 0 (400 / 9) 2000 3600 ''LOW''
       (Hour + 5) = Some (Errno ''connection refused'')
   \<and> bucket (rollover answering_env (hMain_cfg ''host'' ''user'') (Hour + 5) full_hour)
       = (Hour, 0, 0)
   \<and> bucket (rollover refusing_env (hMain_cfg ''host'' ''user'') (Hour + 5) full_hour)
       = (Hour, 0, 0)
   \<and> handedOver full_hour = []
   \<and> distinct [0, Hour]
   \<and> map row_hourStart (handedOver (hRun (hMain_cfg ''host'' ''user'') full_hour
        [HSampleTick (Hour + 5) refusing_env resting_cursor recent_input,
         HFlushTick,
         HSampleTick (2 * Hour + 5) answering_env resting_cursor recent_input]))
       = [0, Hour]"
proof -
  have t: "Truncate (Hour + 5) Hour = Hour"
    by (simp add: Truncate_def Hour_def Minute_def Second_def Millisecond_def)
  have ok: "insertHourly answering_env (hMain_cfg ''host'' ''user'') 0 (400 / 9) 2000 3600
      ''LOW'' (Hour + 5) = None"
    by (simp add: insertHourly_def rqliteExec_def answering_env_def hMain_cfg_def)
  have ko: "insertHourly refusing_env (hMain_cfg ''host'' ''user'') 0 (400 / 9) 2000 3600
      ''LOW'' (Hour + 5) = Some (Errno ''connection refused'')"
    by (simp add: insertHourly_def rqliteExec_def refusing_env_def hMain_cfg_def)
  have e: "handedOver full_hour = []"
    by (simp add: full_hour_def)
  from bucket_reset_whatever_the_upload [OF full_hour_rolls,
      of answering_env "hMain_cfg ''host'' ''user''" refusing_env full_hour
         "[HSampleTick (Hour + 5) refusing_env resting_cursor recent_input,
           HFlushTick,
           HSampleTick (2 * Hour + 5) answering_env resting_cursor recent_input]"]
    full_hour_rolls ok ko e
  show ?thesis
    unfolding two_hours by (simp add: t)
qed

text \<open>
  C6, as stated, fails on a configuration whose base URL is empty: the call returns
  an error before any request is made, in a world where none of the five listed
  failures occurs.
\<close>

theorem rqliteExec_empty_url_counterexample:
  "rqliteExec answering_env ((hMain_cfg ''host'' ''user'')\<lparr>RqliteBaseURL := []\<rparr>) [] \<noteq> None
   \<and> \<not> listed_failure answering_env ((hMain_cfg ''host'' ''user'')\<lparr>RqliteBaseURL := []\<rparr>) []"
  by (simp add: rqliteExec_def listed_failure_def exchange_def answering_env_def)

text \<open>
  C6, amended. \<^verbatim>\<open>rqliteExec\<close> returns an error if and only if the configured base URL
  is empty, or the HTTP request itself fails (the statements cannot be marshalled, the
  request cannot be built, or sending it fails), or the status code is outside
  \<open>[200, 300)\<close>, or the body cannot be parsed, or the top-level error field is not
  empty, or the error field of some result is not empty; otherwise it returns success.
\<close>

theorem rqliteExec_error_iff:
  "rqliteExec env cfg stmts \<noteq> None \<longleftrightarrow>
     RqliteBaseURL cfg = []
     \<or> (case exchange env cfg stmts of
          Inl err \<Rightarrow> True
        | Inr resp \<Rightarrow>
            StatusCode resp < 200 \<or> StatusCode resp \<ge> 300
            \<or> (case json_Unmarshal env (Body resp) of
                  Inl err \<Rightarrow> True
                | Inr parsed \<Rightarrow>
                    Error parsed \<noteq> []
                    \<or> (\<exists>r \<in> set (Results parsed). ResultError r \<noteq> [])))"
  by (simp add: rqliteExec_None_iff listed_failure_def)

theorem rqliteExec_error_iff_witness:
  "rqliteExec answering_env (hMain_cfg ''host'' ''user'') [] = None
   \<and> rqliteExec refusing_env (hMain_cfg ''host'' ''user'') [] \<noteq> None"
  using rqliteExec_error_iff [of answering_env "hMain_cfg ''host'' ''user''" "[]"]
    rqliteExec_error_iff [of refusing_env "hMain_cfg ''host'' ''user''" "[]"]
  by (simp add: exchange_def answering_env_def refusing_env_def hMain_cfg_def)

section \<open>Facts about the two loops\<close>

lemma recent_input_idle: "getIdleDuration recent_input = Inr (500 * Millisecond)"
  by (simp add: getIdleDuration_def recent_input_def idleMillis_def Millisecond_def)

lemma tick_idle_failure:
  assumes "getIdleDuration iq = Inl err"
  shows "samples (tick cfg now cq iq st) = samples st"
    and "written (tick cfg now cq iq st) = written (tick_mouse cfg now cq st)
           @ [Sprintf ''[%s] GetLastInputInfo error: %v'' [RFC3339 now, V err]]"
proof -
  have m: "samples (tick_mouse cfg now cq st) = samples st"
    by (simp add: tick_mouse_def Let_def writeLine_def split: sum.splits)
  show "samples (tick cfg now cq iq st) = samples st"
    using assms by (simp add: tick_def tick_idle_def writeLine_def m)
  show "written (tick cfg now cq iq st) = written (tick_mouse cfg now cq st)
           @ [Sprintf ''[%s] GetLastInputInfo error: %v'' [RFC3339 now, V err]]"
    using assms by (simp add: tick_def tick_idle_def writeLine_def)
qed

lemma log_mouse_counters:
  "samplesInHour (log_mouse cfg now cq idleStr st) = samplesInHour st"
  "idleSecondsInHour (log_mouse cfg now cq idleStr st) = idleSecondsInHour st"
  by (simp_all add: log_mouse_def Let_def hWriteLine_def split: sum.splits)

lemma hTick_idle_failure:
  assumes "getIdleDuration iq = Inl err"
  shows "samplesInHour (hTick cfg now env cq iq st) = samplesInHour (rollover env cfg now st)"
    and "idleSecondsInHour (hTick cfg now env cq iq st) = idleSecondsInHour (rollover env cfg now st)"
  using assms by (simp_all add: hTick_def Let_def poll_idle_def log_mouse_counters)

lemma hTick_idle_success:
  assumes "getIdleDuration iq = Inr idleNow"
  shows "samplesInHour (hTick cfg now env cq iq st) = samplesInHour (rollover env cfg now st) + 1"
  using assms by (simp_all add: hTick_def Let_def poll_idle_def log_mouse_counters)

lemma hTick_idle_failure_silent:
  assumes "getIdleDuration iq = Inl err"
    and "getMousePos cq = Inr p" and "X p = X (hLastMouse st)" and "Y p = Y (hLastMouse st)"
  shows "hWritten (hTick cfg now env cq iq st) = hWritten (rollover env cfg now st)"
proof -
  have "hLastMouse (rollover env cfg now st) = hLastMouse st"
    by (simp add: rollover_def Let_def hWriteLine_def split: option.splits)
  with assms show ?thesis
    by (simp add: hTick_def Let_def poll_idle_def log_mouse_def)
qed


lemma tick_mouse_failure:
  assumes "getMousePos cq = Inl err"
  shows "tick_mouse cfg now cq st
          = st\<lparr>written := written st @ [Sprintf ''[%s] GetCursorPos error: %v'' [RFC3339 now, V err]]\<rparr>"
  using assms by (simp add: tick_mouse_def writeLine_def)

lemma tick_idle_success:
  assumes "getIdleDuration iq = Inr idleNow"
  shows "samples (tick cfg now cq iq st)
          = Push cfg now (idleNow < ActiveIfIdleLessThan cfg) (samples st)"
proof -
  have m: "samples (tick_mouse cfg now cq st) = samples st"
    by (simp add: tick_mouse_def Let_def writeLine_def split: sum.splits)
  show ?thesis
    using assms by (simp add: tick_def tick_idle_def Let_def writeLine_def m)
qed

lemma hTick_mouse_failure:
  assumes "getMousePos cq = Inl err"
  shows "hWritten (hTick cfg now env cq iq st) = hWritten (rollover env cfg now st)
           @ [Sprintf ''[%s] GetCursorPos error: %v'' [RFC3339 now, V err]]"
  using assms
  by (simp add: hTick_def Let_def split_beta log_mouse_def hWriteLine_def poll_idle_def
      split: sum.splits)


lemma listed_timestamped: "listed_line l \<Longrightarrow> timestamped l"
proof (cases l)
  case (Sprintf f args)
  assume "listed_line l"
  then show ?thesis
    unfolding Sprintf listed_line_def listed_formats_def
    by (cases args; cases "hd args") auto
next
  case (StrCat lit err)
  assume "listed_line l"
  then show ?thesis by (simp add: StrCat listed_line_def)
qed

lemma tick_mouse_lines:
  "list_all window_line (written st) \<Longrightarrow> list_all window_line (written (tick_mouse cfg now cq st))"
  by (simp add: tick_mouse_def Let_def writeLine_def window_line_def listed_line_def
      listed_formats_def query_error_formats_def split: sum.splits)

lemma tick_idle_lines:
  "list_all window_line (written st) \<Longrightarrow> list_all window_line (written (tick_idle cfg now iq st))"
  by (simp add: tick_idle_def Let_def writeLine_def window_line_def listed_line_def
      listed_formats_def query_error_formats_def split: sum.splits)

lemma tick_mouse_listed:
  "cur_r1 cq \<noteq> 0 \<Longrightarrow> list_all listed_line (written st) \<Longrightarrow>
   list_all listed_line (written (tick_mouse cfg now cq st))"
  by (simp add: tick_mouse_def Let_def writeLine_def listed_line_def getMousePos_def
      listed_formats_def)

lemma tick_idle_listed:
  "lii_r1 iq \<noteq> 0 \<Longrightarrow> list_all listed_line (written st) \<Longrightarrow>
   list_all listed_line (written (tick_idle cfg now iq st))"
  by (simp add: tick_idle_def Let_def writeLine_def listed_line_def getIdleDuration_def
      listed_formats_def)

lemma run_lines:
  "list_all window_line (written st) \<Longrightarrow> list_all window_line (written (run cfg st evs))"
proof (induction cfg st evs rule: run.induct)
  case (2 cfg st t evs)
  then show ?case
    by (simp add: writeLine_def window_line_def listed_line_def listed_formats_def)
qed (simp_all add: tick_def tick_mouse_lines tick_idle_lines)

lemma run_listed:
  "list_all queries_succeed evs \<Longrightarrow> list_all listed_line (written st) \<Longrightarrow>
   list_all listed_line (written (run cfg st evs))"
proof (induction cfg st evs rule: run.induct)
  case (2 cfg st t evs)
  then show ?case
    by (simp add: writeLine_def listed_line_def listed_formats_def)
qed (simp_all add: tick_def tick_mouse_listed tick_idle_listed)

lemma main_lines: "list_all window_line (main su evs)"
proof (cases "su_logger su")
  case (Some err)
  then show ?thesis by (simp add: main_def)
next
  case None
  show ?thesis
  proof (cases "getMousePos (su_cursor su)")
    case (Inl err)
    with None show ?thesis by (simp add: main_def window_line_def)
  next
    case (Inr p)
    have "list_all window_line (written (run main_cfg
        (writeLine
           (Sprintf ''[%s] START (logs in %s as %s-YYYY-MM-DD.log)''
              [RFC3339 (su_now su), S (LogDir main_cfg), S (LogBaseName main_cfg)])
           \<lparr>lastMouse = p, samples = [], lastMode = [],
            lastStatusPrint = 0, lastMousePrint = 0, written = []\<rparr>) evs))"
      by (rule run_lines)
        (simp add: writeLine_def window_line_def listed_line_def listed_formats_def)
    with None Inr show ?thesis by (simp add: main_def Let_def)
  qed
qed

lemma main_listed:
  "cur_r1 (su_cursor su) \<noteq> 0 \<Longrightarrow> list_all queries_succeed evs \<Longrightarrow>
   list_all listed_line (main su evs)"
  by (auto simp: main_def Let_def getMousePos_def split: option.splits
      intro!: run_listed
      simp: writeLine_def listed_line_def listed_formats_def)

lemma rollover_lines:
  "list_all hourly_line (hWritten st) \<Longrightarrow> list_all hourly_line (hWritten (rollover env cfg now st))"
  by (simp add: rollover_def Let_def hWriteLine_def hourly_formats_def split: option.splits)

lemma poll_idle_lines:
  "hWritten (snd (poll_idle cfg iq st)) = hWritten st"
  by (simp add: poll_idle_def split: sum.splits)

lemma poll_idle_kind:
  "kind_of (fst (poll_idle cfg iq st)) = KString \<or> kind_of (fst (poll_idle cfg iq st)) = KDuration"
  by (simp add: poll_idle_def split: sum.splits)

lemma log_mouse_lines:
  "kind_of idleStr = KString \<or> kind_of idleStr = KDuration \<Longrightarrow>
   list_all hourly_line (hWritten st) \<Longrightarrow>
   list_all hourly_line (hWritten (log_mouse cfg now cq idleStr st))"
  by (auto simp: log_mouse_def Let_def hWriteLine_def hourly_formats_def split: sum.splits)

lemma hTick_lines:
  "list_all hourly_line (hWritten st) \<Longrightarrow>
   list_all hourly_line (hWritten (hTick cfg now env cq iq st))"
  unfolding hTick_def Let_def split_beta
  by (intro log_mouse_lines poll_idle_kind) (simp add: poll_idle_lines rollover_lines)

lemma hRun_lines:
  "list_all hourly_line (hWritten st) \<Longrightarrow> list_all hourly_line (hWritten (hRun cfg st evs))"
proof (induction cfg st evs rule: hRun.induct)
  case (2 cfg st t evs)
  then show ?case
    by (simp add: hWriteLine_def hourly_formats_def)
qed (simp_all add: hTick_lines)

lemma hMain_lines: "list_all hourly_line (fst (hMain su evs))"
  by (auto simp: hMain_def Let_def split: option.splits sum.splits
      intro!: hRun_lines simp: hWriteLine_def hourly_formats_def)


text \<open>
  C8, as stated, fails on a tick of the loop that keeps the window when the cursor
  query fails and the idle query succeeds: the error line is written, and the sample
  of that tick is pushed all the same.
\<close>

theorem cursor_failure_still_samples_counterexample:
  "getMousePos failing_cursor = Inl (Errno ''Access is denied.'')
   \<and> getIdleDuration recent_input = Inr (500 * Millisecond)
   \<and> samples fresh_loop = []
   \<and> samples (tick main_cfg (5 * Second) failing_cursor recent_input fresh_loop)
       = [\<lparr>s_t = 5 * Second, s_active = True\<rparr>]"
  by (simp add: tick_def tick_idle_def tick_mouse_def Let_def recent_input_idle writeLine_def
      getMousePos_def failing_cursor_def fresh_loop_def Push_dropWhile main_cfg_def
      Minute_def Second_def Millisecond_def)

text \<open>
  C8, amended. On a tick where the idle query fails, the loop that keeps the window
  writes a \<^verbatim>\<open>GetLastInputInfo error\<close> line and leaves the window as it was, and the
  hourly loop leaves the sample count and the idle seconds of the bucket as the
  rollover left them (and, when the cursor has not moved, writes no line for it). On a tick where the cursor query fails, both loops write a
  \<^verbatim>\<open>GetCursorPos error\<close> line and the first changes nothing else in its mouse step.
  Whenever the idle query succeeds, whatever the cursor query did, the sample of the
  tick is pushed into the window, respectively counted in the bucket. In every case
  the loop goes on with the next event.
\<close>

theorem failed_query_on_a_tick:
  "(getIdleDuration iq = Inl err \<longrightarrow>
       samples (tick cfg now cq iq st) = samples st
     \<and> written (tick cfg now cq iq st) = written (tick_mouse cfg now cq st)
         @ [Sprintf ''[%s] GetLastInputInfo error: %v'' [RFC3339 now, V err]]
     \<and> samplesInHour (hTick hcfg now env cq iq hst)
         = samplesInHour (rollover env hcfg now hst)
     \<and> idleSecondsInHour (hTick hcfg now env cq iq hst)
         = idleSecondsInHour (rollover env hcfg now hst))
   \<and> (getIdleDuration iq = Inl err \<and> getMousePos cq = Inr p
        \<and> X p = X (hLastMouse hst) \<and> Y p = Y (hLastMouse hst) \<longrightarrow>
       hWritten (hTick hcfg now env cq iq hst) = hWritten (rollover env hcfg now hst))
   \<and> (getMousePos cq = Inl err \<longrightarrow>
       tick_mouse cfg now cq st
         = st\<lparr>written := written st
               @ [Sprintf ''[%s] GetCursorPos error: %v'' [RFC3339 now, V err]]\<rparr>
     \<and> hWritten (hTick hcfg now env cq iq hst) = hWritten (rollover env hcfg now hst)
         @ [Sprintf ''[%s] GetCursorPos error: %v'' [RFC3339 now, V err]])
   \<and> (getIdleDuration iq = Inr idleNow \<longrightarrow>
       samples (tick cfg now cq iq st)
         = Push cfg now (idleNow < ActiveIfIdleLessThan cfg) (samples st)
     \<and> samplesInHour (hTick hcfg now env cq iq hst)
         = samplesInHour (rollover env hcfg now hst) + 1)
   \<and> run cfg st (SampleTick now cq iq # evs) = run cfg (tick cfg now cq iq st) evs
   \<and> hRun hcfg hst (HSampleTick now env cq iq # hevs)
       = hRun hcfg (hTick hcfg now env cq iq hst) hevs"
  by (simp add: tick_idle_failure hTick_idle_failure tick_mouse_failure hTick_mouse_failure
      tick_idle_success hTick_idle_success hTick_idle_failure_silent)

theorem failed_query_on_a_tick_witness:
  "getIdleDuration failing_idle = Inl (Errno ''Access is denied.'')
   \<and> getMousePos failing_cursor = Inl (Errno ''Access is denied.'')
   \<and> getMousePos resting_cursor = Inr (hLastMouse full_hour)
   \<and> getIdleDuration recent_input = Inr (500 * Millisecond)
   \<and> samples (tick main_cfg (5 * Second) failing_cursor failing_idle fresh_loop) = []
   \<and> written (tick main_cfg (5 * Second) failing_cursor failing_idle fresh_loop)
       = [Sprintf ''[%s] GetCursorPos error: %v''
            [RFC3339 (5 * Second), V (Errno ''Access is denied.'')],
          Sprintf ''[%s] GetLastInputInfo error: %v''
            [RFC3339 (5 * Second), V (Errno ''Access is denied.'')]]
   \<and> samplesInHour (hTick (hMain_cfg ''host'' ''user'') (5 * Second) answering_env
         failing_cursor failing_idle full_hour) = 3600
   \<and> hWritten (hTick (hMain_cfg ''host'' ''user'') (5 * Second) answering_env
         resting_cursor failing_idle full_hour) = []
   \<and> samplesInHour (hTick (hMain_cfg ''host'' ''user'') (5 * Second) answering_env
         failing_cursor recent_input full_hour) = 3601"
proof -
  have i: "getIdleDuration failing_idle = Inl (Errno ''Access is denied.'')"
    by (simp add: getIdleDuration_def failing_idle_def)
  have c: "getMousePos failing_cursor = Inl (Errno ''Access is denied.'')"
    by (simp add: getMousePos_def failing_cursor_def)
  have m: "getMousePos resting_cursor = Inr (hLastMouse full_hour)"
    by (simp add: getMousePos_def resting_cursor_def full_hour_def)
  have r: "rollover answering_env (hMain_cfg ''host'' ''user'') (5 * Second) full_hour = full_hour"
    by (rule rollover_same_hour)
      (simp add: After_def Truncate_def full_hour_def Hour_def Minute_def Second_def
        Millisecond_def)
  have s: "samplesInHour full_hour = 3600" "hWritten full_hour = []"
    by (simp_all add: full_hour_def)
  from failed_query_on_a_tick [of failing_idle "Errno ''Access is denied.''" main_cfg
      "5 * Second" failing_cursor fresh_loop "hMain_cfg ''host'' ''user''" answering_env
      full_hour]
    failed_query_on_a_tick [of failing_idle "Errno ''Access is denied.''" main_cfg
      "5 * Second" resting_cursor fresh_loop "hMain_cfg ''host'' ''user''" answering_env
      full_hour "hLastMouse full_hour"]
    failed_query_on_a_tick [of recent_input "Errno ''Access is denied.''" main_cfg
      "5 * Second" failing_cursor fresh_loop "hMain_cfg ''host'' ''user''" answering_env
      full_hour _ "500 * Millisecond"]
    i c m recent_input_idle
  show ?thesis
    by (simp add: r s fresh_loop_def)
qed

lemma quiet_run_lines:
  "main quiet_start [SampleTick (5 * Second) resting_cursor recent_input, Done (6 * Second)]
    = [Sprintf ''[%s] START (logs in %s as %s-YYYY-MM-DD.log)''
         [RFC3339 (4 * Second), S (LogDir main_cfg), S ''activity''],
       Sprintf ''[%s] MODE CHANGE: %s  idleNow=%s  activeRatio=%.0f%%  samples=%d''
         [RFC3339 (5 * Second), S ''HIGH_PRODUCTIVE'', Dur (500 * Millisecond), F 100, D 1],
       Sprintf ''[%s] STOP'' [RFC3339 (6 * Second)]]"
  by (simp add: main_def quiet_start_def resting_cursor_def getMousePos_def tick_def
      tick_mouse_def tick_idle_def Let_def recent_input_idle writeLine_def Push_dropWhile
      ActiveRatio_def modeFrom_def ModeHighProductive_def ModeIdle_def IsZero_def Sub_def
      main_cfg_def Minute_def Second_def Millisecond_def)

text \<open>
  C9, as stated, fails: when the first cursor query fails, the loop that keeps the
  window writes a line without a timestamp, and the hourly loop opens its log with a
  START line that is none of the five listed formats.
\<close>

theorem unlisted_lines_counterexample:
  "main blind_start [] = [StrCat ''GetCursorPos error: '' (Errno ''Access is denied.'')]
   \<and> \<not> timestamped (StrCat ''GetCursorPos error: '' (Errno ''Access is denied.''))
   \<and> \<not> listed_line (StrCat ''GetCursorPos error: '' (Errno ''Access is denied.''))
   \<and> fst (hMain plain_hstart [])
       = [Sprintf ''[%s] START host=%s user=%s rqlite=%s''
            [RFC3339 (4 * Second), S ''host'', S ''user'', S ''http://192.168.1.6:4001'']]
   \<and> \<not> listed_line (Sprintf ''[%s] START host=%s user=%s rqlite=%s''
            [RFC3339 (4 * Second), S ''host'', S ''user'', S ''http://192.168.1.6:4001''])"
  by (simp add: main_def blind_start_def failing_cursor_def getMousePos_def listed_line_def
      hMain_def plain_hstart_def resting_cursor_def hWriteLine_def hMain_cfg_def
      listed_formats_def)

text \<open>
  C9, amended. Every line that the loop keeping the window writes is one of the five
  listed formats, each prefixed with the RFC 3339 timestamp in brackets, or one of
  the error lines for a failed query (\<^verbatim>\<open>[ts] GetCursorPos error: ...\<close>,
  \<^verbatim>\<open>[ts] GetLastInputInfo error: ...\<close>, and \<^verbatim>\<open>GetCursorPos error: ...\<close> without a
  timestamp at the start); in an execution where every query succeeds only the five
  listed formats occur. The hourly loop writes formats of its own: START with host,
  user and store, STOP, the two RQLITE insert lines, the cursor error lines and
  \<^verbatim>\<open>EVENT=MOUSE_MOVE\<close>.
\<close>

theorem log_line_formats:
  "(\<forall>l \<in> set (main su evs). listed_line l \<or> query_error_line l)
   \<and> (cur_r1 (su_cursor su) \<noteq> 0 \<and> list_all queries_succeed evs \<longrightarrow>
        (\<forall>l \<in> set (main su evs). listed_line l \<and> timestamped l))
   \<and> (\<forall>l \<in> set (fst (hMain hsu hevs)). hourly_line l)"
proof -
  have a: "\<forall>l \<in> set (main su evs). listed_line l \<or> query_error_line l"
    using main_lines [of su evs] by (simp add: list_all_iff window_line_def)
  have b: "cur_r1 (su_cursor su) \<noteq> 0 \<and> list_all queries_succeed evs \<longrightarrow>
        (\<forall>l \<in> set (main su evs). listed_line l \<and> timestamped l)"
    using main_listed [of su evs] by (auto simp: list_all_iff listed_timestamped)
  have c: "\<forall>l \<in> set (fst (hMain hsu hevs)). hourly_line l"
    using hMain_lines [of hsu hevs] by (simp add: list_all_iff)
  from a b c show ?thesis by blast
qed

theorem log_line_formats_witness:
  "cur_r1 (su_cursor quiet_start) \<noteq> 0
   \<and> list_all queries_succeed
        [SampleTick (5 * Second) resting_cursor recent_input, Done (6 * Second)]
   \<and> main quiet_start [SampleTick (5 * Second) resting_cursor recent_input, Done (6 * Second)]
    = [Sprintf ''[%s] START (logs in %s as %s-YYYY-MM-DD.log)''
         [RFC3339 (4 * Second), S (LogDir main_cfg), S ''activity''],
       Sprintf ''[%s] MODE CHANGE: %s  idleNow=%s  activeRatio=%.0f%%  samples=%d''
         [RFC3339 (5 * Second), S ''HIGH_PRODUCTIVE'', Dur (500 * Millisecond), F 100, D 1],
       Sprintf ''[%s] STOP'' [RFC3339 (6 * Second)]]
   \<and> listed_line (Sprintf ''[%s] MODE CHANGE: %s  idleNow=%s  activeRatio=%.0f%%  samples=%d''
         [RFC3339 (5 * Second), S ''HIGH_PRODUCTIVE'', Dur (500 * Millisecond), F 100, D 1])
   \<and> hourly_line (Sprintf ''[%s] START host=%s user=%s rqlite=%s''
            [RFC3339 (4 * Second), S ''host'', S ''user'', S ''http://192.168.1.6:4001''])"
proof -
  have q: "cur_r1 (su_cursor quiet_start) \<noteq> 0"
    by (simp add: quiet_start_def resting_cursor_def)
  have e: "list_all queries_succeed
        [SampleTick (5 * Second) resting_cursor recent_input, Done (6 * Second)]"
    by (simp add: resting_cursor_def recent_input_def)
  have h: "fst (hMain plain_hstart [])
       = [Sprintf ''[%s] START host=%s user=%s rqlite=%s''
            [RFC3339 (4 * Second), S ''host'', S ''user'', S ''http://192.168.1.6:4001'']]"
    by (simp add: hMain_def plain_hstart_def resting_cursor_def getMousePos_def
        hWriteLine_def hMain_cfg_def)
  from log_line_formats [of quiet_start
      "[SampleTick (5 * Second) resting_cursor recent_input, Done (6 * Second)]"
      plain_hstart "[]"] q e
  show ?thesis
    unfolding quiet_run_lines h by simp
qed


section \<open>Facts about the rotating log writer\<close>

lemma kept_refl: "kept d d"
  by (simp add: kept_def)

lemma kept_trans: "kept d d' \<Longrightarrow> kept d' d'' \<Longrightarrow> kept d d''"
  unfolding kept_def by (metis append.assoc)

lemma kept_files: "files d' = files d \<Longrightarrow> kept d d'"
  by (simp add: kept_def)

lemma closeOld_inv: "one_handle rd \<Longrightarrow> one_handle (closeOld rd)"
  by (cases rd) (auto simp: one_handle_def closeOld_def CloseFile_def SyncFile_def
      split: option.splits)

lemma closeOld_none:
  "one_handle rd \<Longrightarrow> handles (snd (closeOld rd)) = [] \<and> r_file (fst (closeOld rd)) = None"
  by (cases rd) (auto simp: one_handle_def closeOld_def CloseFile_def SyncFile_def
      split: option.splits)

lemma closeOld_files: "files (snd (closeOld rd)) = files (snd rd)"
  by (cases rd) (auto simp: closeOld_def CloseFile_def SyncFile_def split: option.splits)

lemma closeOld_names:
  "r_dir (fst (closeOld rd)) = r_dir (fst rd) \<and> r_base (fst (closeOld rd)) = r_base (fst rd)"
  by (cases rd) (auto simp: closeOld_def split: option.splits)

lemma closeOld_syscalls:
  "syscalls (snd (closeOld rd)) =
     syscalls (snd rd) @ (case r_file (fst rd) of None \<Rightarrow> [] | Some f \<Rightarrow> [SysSync f, SysClose f])"
  by (cases rd) (auto simp: closeOld_def CloseFile_def SyncFile_def split: option.splits)

lemma closeOld_facts:
  assumes "one_handle (r, d)" and "closeOld (r, d) = (r1, d1)"
  shows "handles d1 = []" "r_file r1 = None" "r_logger r1 = None"
    "r_dir r1 = r_dir r" "r_base r1 = r_base r" "files d1 = files d" "peak d1 \<le> 1"
    "syscalls d1 = syscalls d @ (case r_file r of None \<Rightarrow> [] | Some f \<Rightarrow> [SysSync f, SysClose f])"
  using closeOld_none [OF assms(1)] closeOld_inv [OF assms(1)] closeOld_names [of "(r, d)"]
    closeOld_files [of "(r, d)"] closeOld_syscalls [of "(r, d)"] assms(2)
  by (auto simp: one_handle_def)

lemma rotate_inv:
  assumes "one_handle rd"
  shows "one_handle (snd (rotateIfNeeded failure date rd))"
proof (cases rd)
  case (Pair r d)
  show ?thesis
  proof (cases "date = r_curDate r \<and> r_file r \<noteq> None \<and> r_logger r \<noteq> None")
    case True
    with assms Pair show ?thesis by (simp add: rotateIfNeeded_def)
  next
    case False
    obtain r1 d1 where c: "closeOld (r, d) = (r1, d1)" by (cases "closeOld (r, d)")
    note h = closeOld_facts [OF assms [unfolded Pair] c]
    from False Pair c h(1-5,7) show ?thesis
      by (auto simp: rotateIfNeeded_def Let_def OpenFile_def one_handle_def filenameFor_def
          log_handle_def split: option.splits)
  qed
qed

lemma rotate_kept: 
  assumes "one_handle rd"
  shows "kept (snd rd) (snd (snd (rotateIfNeeded failure date rd)))"
proof (cases rd)
  case (Pair r d)
  obtain r1 d1 where c: "closeOld (r, d) = (r1, d1)" by (cases "closeOld (r, d)")
  note h = closeOld_facts [OF assms [unfolded Pair] c]
  show ?thesis
    using Pair c h(6)
    by (auto simp: rotateIfNeeded_def Let_def OpenFile_def kept_def split: option.splits)
qed

lemma WriteLine_kept:
  "map_of (handles d) f = Some (log_handle p) \<Longrightarrow> kept d (WriteLine outcome f line d)"
  by (cases outcome)
    (auto simp: WriteLine_def put_entry_def kept_def log_handle_def Let_def split: option.splits)

lemma WriteLine_handles:
  "map_of (handles d) f = Some (log_handle p) \<Longrightarrow>
   handles (WriteLine outcome f line d) = handles d \<and> peak (WriteLine outcome f line d) = peak d"
  by (cases outcome)
    (auto simp: WriteLine_def put_entry_def log_handle_def Let_def split: option.splits)

lemma one_handle_lookup:
  "one_handle (r, d) \<Longrightarrow> r_logger r = Some l \<Longrightarrow>
   map_of (handles d) l = Some (log_handle (filenameFor r (r_curDate r)))"
  by (cases "r_file r") (auto simp: one_handle_def)

lemma WriteLine_files_dom:
  "files d p \<noteq> None \<Longrightarrow> files (WriteLine outcome f line d) p \<noteq> None"
  by (cases outcome)
    (auto simp: WriteLine_def put_entry_def Let_def split: option.splits)

lemma Println_inv: "one_handle rd \<Longrightarrow> one_handle (Println failure outcome date line rd)"
proof -
  assume a: "one_handle rd"
  obtain e r1 d1 where r: "rotateIfNeeded failure date rd = (e, r1, d1)"
    by (cases "rotateIfNeeded failure date rd")
  from rotate_inv [OF a, of failure date] r have i: "one_handle (r1, d1)" by simp
  show ?thesis
  proof (cases "r_logger r1")
    case None
    with i show ?thesis by (simp add: Println_def r)
  next
    case (Some l)
    with i have f: "r_file r1 = Some l" by (simp add: one_handle_def)
    note w = WriteLine_handles [OF one_handle_lookup [OF i Some], of outcome line]
    from i f have "files d1 (filenameFor r1 (r_curDate r1)) \<noteq> None"
      by (simp add: one_handle_def)
    then have "files (WriteLine outcome l line d1) (filenameFor r1 (r_curDate r1)) \<noteq> None"
      by (rule WriteLine_files_dom)
    with i f Some w have "one_handle (r1, WriteLine outcome l line d1)"
      by (simp add: one_handle_def)
    with Some show ?thesis by (simp add: Println_def r)
  qed
qed

lemma Println_kept:
  assumes "one_handle rd"
  shows "kept (snd rd) (snd (Println failure outcome date line rd))"
proof -
  obtain e r1 d1 where r: "rotateIfNeeded failure date rd = (e, r1, d1)"
    by (cases "rotateIfNeeded failure date rd")
  from rotate_inv [OF assms, of failure date] r have i: "one_handle (r1, d1)" by simp
  from rotate_kept [OF assms, of failure date] r have k: "kept (snd rd) d1" by simp
  show ?thesis
  proof (cases "r_logger r1")
    case None
    with k show ?thesis by (simp add: Println_def r)
  next
    case (Some l)
    from WriteLine_kept [OF one_handle_lookup [OF i Some], of outcome line] k Some
    show ?thesis
      by (auto simp: Println_def r intro: kept_trans)
  qed
qed

lemma apply_op_inv: "one_handle rd \<Longrightarrow> one_handle (apply_op op rd)"
proof (cases op)
  case (DoPrintln failure outcome date line)
  assume "one_handle rd"
  then show ?thesis by (simp add: DoPrintln Println_inv)
next
  case DoSync
  assume "one_handle rd"
  then show ?thesis
    by (cases rd) (auto simp: DoSync Sync_def SyncFile_def one_handle_def split: option.splits)
next
  case DoClose
  assume "one_handle rd"
  then show ?thesis by (simp add: DoClose Close_def closeOld_inv)
qed

lemma apply_op_kept: "one_handle rd \<Longrightarrow> kept (snd rd) (snd (apply_op op rd))"
proof (cases op)
  case (DoPrintln failure outcome date line)
  assume "one_handle rd"
  then show ?thesis by (simp add: DoPrintln Println_kept)
next
  case DoSync
  then show ?thesis
    by (cases rd) (auto simp: Sync_def SyncFile_def kept_def split: option.splits)
next
  case DoClose
  then show ?thesis
    using closeOld_files [of rd] by (simp add: Close_def kept_def)
qed

lemma apply_ops_inv: "one_handle rd \<Longrightarrow> one_handle (apply_ops ops rd)"
  unfolding apply_ops_def
  by (induction ops arbitrary: rd) (simp_all add: apply_op_inv)

lemma apply_ops_kept: "one_handle rd \<Longrightarrow> kept (snd rd) (snd (apply_ops ops rd))"
  unfolding apply_ops_def
proof (induction ops arbitrary: rd)
  case Nil
  then show ?case by (simp add: kept_refl)
next
  case (Cons op ops)
  from apply_op_kept [OF Cons.prems, of op]
    Cons.IH [OF apply_op_inv [OF Cons.prems], of op]
  show ?case by (auto intro: kept_trans)
qed

lemma one_handle_count:
  "one_handle rd \<Longrightarrow> length (handles (snd rd)) \<le> 1 \<and> peak (snd rd) \<le> 1"
  by (cases rd) (auto simp: one_handle_def split: option.splits)

lemma New_inv:
  "handles d = [] \<Longrightarrow> peak d \<le> 1 \<Longrightarrow>
   NewRotatingLogger mf failure date dir base d = (Inr r, d') \<Longrightarrow> one_handle (r, d')"
proof -
  assume h: "handles d = []" and p: "peak d \<le> 1"
    and n: "NewRotatingLogger mf failure date dir base d = (Inr r, d')"
  let ?rl = "\<lparr>r_dir = dir, r_base = base, r_curDate = [], r_file = None, r_logger = None\<rparr>"
  have "one_handle (?rl, d)" using h p by (simp add: one_handle_def)
  from rotate_inv [OF this, of failure date] n show ?thesis
    by (auto simp: NewRotatingLogger_def Let_def split: option.splits prod.splits)
qed

lemma New_files:
  "NewRotatingLogger mf failure date dir base d = (Inr r, d') \<Longrightarrow> files d p = Some c \<Longrightarrow>
   files d' p = Some c"
  by (auto simp: NewRotatingLogger_def rotateIfNeeded_def closeOld_def OpenFile_def Let_def
      split: option.splits if_splits)

lemma rotate_order:
  assumes "one_handle rd" and "r_file (fst rd) = Some f" and "date \<noteq> r_curDate (fst rd)"
  shows "syscalls (snd (snd (rotateIfNeeded failure date rd))) =
           syscalls (snd rd) @
             [SysSync f, SysClose f,
              SysOpen (filenameFor (fst rd) date) [O_CREATE, O_APPEND, O_WRONLY] 0x1A4]"
proof (cases rd)
  case (Pair r d)
  obtain r1 d1 where c: "closeOld (r, d) = (r1, d1)" by (cases "closeOld (r, d)")
  note h = closeOld_facts [OF assms(1) [unfolded Pair] c]
  from assms(2,3) Pair c h show ?thesis
    by (auto simp: rotateIfNeeded_def Let_def OpenFile_def filenameFor_def split: option.splits)
qed

lemma rotate_success:
  assumes "one_handle rd"
  shows "\<exists>r' d' f. rotateIfNeeded None date rd = (None, r', d')
           \<and> r_file r' = Some f \<and> r_logger r' = Some f \<and> r_curDate r' = date
           \<and> handles d' = [(f, log_handle (filenameFor (fst rd) date))]"
proof (cases rd)
  case (Pair r d)
  show ?thesis
  proof (cases "date = r_curDate r \<and> r_file r \<noteq> None \<and> r_logger r \<noteq> None")
    case True
    with assms Pair show ?thesis by (auto simp: rotateIfNeeded_def one_handle_def)
  next
    case False
    obtain r1 d1 where c: "closeOld (r, d) = (r1, d1)" by (cases "closeOld (r, d)")
    note h = closeOld_facts [OF assms [unfolded Pair] c]
    from False Pair c h(1-5) show ?thesis
      by (auto simp: rotateIfNeeded_def Let_def OpenFile_def filenameFor_def log_handle_def)
  qed
qed

lemma rotate_failure:
  assumes "one_handle rd" and "date \<noteq> r_curDate (fst rd) \<or> r_file (fst rd) = None"
  shows "\<exists>r' d'. rotateIfNeeded (Some err) date rd = (Some err, r', d')
           \<and> r_file r' = None \<and> r_logger r' = None \<and> handles d' = []
           \<and> files d' = files (snd rd)
           \<and> Println (Some err) outcome date line rd = (r', d')"
proof (cases rd)
  case (Pair r d)
  obtain r1 d1 where c: "closeOld (r, d) = (r1, d1)" by (cases "closeOld (r, d)")
  note h = closeOld_facts [OF assms(1) [unfolded Pair] c]
  from assms(2) Pair c h(1-3,6) show ?thesis
    by (auto simp: Println_def rotateIfNeeded_def Let_def OpenFile_def)
qed

lemma WriteLine_log:
  "map_of (handles d) f = Some (log_handle p) \<Longrightarrow> files d p = Some c \<Longrightarrow>
   files (WriteLine outcome f line d) p
     = Some (c @ (case outcome of
                    WriteOk \<Rightarrow> [Line line]
                  | WritePartial e \<Rightarrow> [Fragment line]
                  | WriteFailed e \<Rightarrow> []))"
  by (cases outcome)
    (auto simp: WriteLine_def put_entry_def log_handle_def Let_def split: option.splits)

lemma Println_written:
  assumes "one_handle rd"
  shows "files (snd (Println None outcome date line rd)) (filenameFor (fst rd) date)
           = Some ((case files (snd rd) (filenameFor (fst rd) date) of
                      None \<Rightarrow> [] | Some c \<Rightarrow> c)
                   @ (case outcome of
                        WriteOk \<Rightarrow> [Line line]
                      | WritePartial e \<Rightarrow> [Fragment line]
                      | WriteFailed e \<Rightarrow> []))"
proof (cases rd)
  case (Pair r d)
  show ?thesis
  proof (cases "date = r_curDate r \<and> r_file r \<noteq> None \<and> r_logger r \<noteq> None")
    case True
    then obtain l where l: "r_logger r = Some l" by auto
    from assms Pair l have "files d (filenameFor r (r_curDate r)) \<noteq> None"
      by (cases "r_file r") (auto simp: one_handle_def)
    then obtain c where c: "files d (filenameFor r (r_curDate r)) = Some c" by auto
    from WriteLine_log [OF one_handle_lookup [OF assms [unfolded Pair] l] c, of outcome line]
      True Pair l c
    show ?thesis
      by (simp add: Println_def rotateIfNeeded_def)
  next
    case False
    obtain r1 d1 where c: "closeOld (r, d) = (r1, d1)" by (cases "closeOld (r, d)")
    note h = closeOld_facts [OF assms [unfolded Pair] c]
    from False Pair c h(1-6) show ?thesis
      by (cases outcome)
        (auto simp: Println_def rotateIfNeeded_def Let_def OpenFile_def filenameFor_def
          WriteLine_def put_entry_def split: option.splits)
  qed
qed

lemma day_one_new:
  "NewRotatingLogger None None ''2024-01-01'' ''logs'' ''activity'' empty_disk
     = (Inr (fst day_one), snd day_one)"
  by (simp add: NewRotatingLogger_def rotateIfNeeded_def closeOld_def OpenFile_def Let_def
      filenameFor_def empty_disk_def day_one_def log_handle_def)

lemma day_one_inv: "one_handle day_one"
  by (simp add: one_handle_def day_one_def filenameFor_def)

lemma restart_new:
  "NewRotatingLogger None None ''2024-01-01'' ''logs'' ''activity'' restart_disk
     = (Inr \<lparr>r_dir = ''logs'', r_base = ''activity'', r_curDate = ''2024-01-01'',
              r_file = Some 0, r_logger = Some 0\<rparr>,
        \<lparr>files = [Join ''logs'' ''activity-2024-01-01.log'' \<mapsto>
                    [Line (Sprintf ''[%s] STOP'' [RFC3339 1])]],
         handles = [(0, log_handle (Join ''logs'' ''activity-2024-01-01.log''))],
         opened = 1,
         syscalls = [SysOpen (Join ''logs'' ''activity-2024-01-01.log'')
                       [O_CREATE, O_APPEND, O_WRONLY] 0x1A4],
         peak = 1\<rparr>)"
  by (simp add: NewRotatingLogger_def rotateIfNeeded_def closeOld_def OpenFile_def Let_def
      filenameFor_def restart_disk_def log_handle_def)

lemma two_days:
  "apply_ops
     [DoPrintln None WriteOk ''2024-01-01'' (Sprintf ''[%s] STOP'' [RFC3339 1]),
      DoSync,
      DoPrintln None WriteOk ''2024-01-02'' (Sprintf ''[%s] STOP'' [RFC3339 2]),
      DoClose,
      DoPrintln None (WriteFailed (Errno ''There is not enough space on the disk.''))
        ''2024-01-02'' (Sprintf ''[%s] STOP'' [RFC3339 3]),
      DoPrintln None WriteOk ''2024-01-02'' (Sprintf ''[%s] STOP'' [RFC3339 4])] day_one
   = (\<lparr>r_dir = ''logs'', r_base = ''activity'', r_curDate = ''2024-01-02'',
       r_file = Some 2, r_logger = Some 2\<rparr>,
      \<lparr>files = [Join ''logs'' ''activity-2024-01-01.log'' \<mapsto>
                  [Line (Sprintf ''[%s] STOP'' [RFC3339 1])],
                Join ''logs'' ''activity-2024-01-02.log'' \<mapsto>
                  [Line (Sprintf ''[%s] STOP'' [RFC3339 2]),
                   Line (Sprintf ''[%s] STOP'' [RFC3339 4])]],
       handles = [(2, log_handle (Join ''logs'' ''activity-2024-01-02.log''))],
       opened = 3,
       syscalls =
         [SysOpen (Join ''logs'' ''activity-2024-01-01.log'') [O_CREATE, O_APPEND, O_WRONLY] 0x1A4,
          SysWrite 0,
          SysSync 0,
          SysSync 0, SysClose 0,
          SysOpen (Join ''logs'' ''activity-2024-01-02.log'') [O_CREATE, O_APPEND, O_WRONLY] 0x1A4,
          SysWrite 1,
          SysSync 1, SysClose 1,
          SysOpen (Join ''logs'' ''activity-2024-01-02.log'') [O_CREATE, O_APPEND, O_WRONLY] 0x1A4,
          SysWrite 2,
          SysWrite 2],
       peak = 1\<rparr>)"
  by (simp add: apply_ops_def day_one_def Println_def rotateIfNeeded_def closeOld_def
      OpenFile_def CloseFile_def SyncFile_def Sync_def Close_def WriteLine_def put_entry_def
      log_handle_def Let_def filenameFor_def fun_upd_twist)

text \<open>What \<^verbatim>\<open>os.OpenFile\<close> does to a file that exists depends on the flags: with the
  flags of the writer the content stays, with \<^verbatim>\<open>O_TRUNC\<close> it is lost, without
  \<^verbatim>\<open>O_CREATE\<close> a missing file is not created, and without \<^verbatim>\<open>O_APPEND\<close> the first
  write replaces the first entry.\<close>

lemma flags_decide:
  "files (snd (OpenFile None (Join ''logs'' ''activity-2024-01-01.log'')
                 [O_CREATE, O_APPEND, O_WRONLY] 0x1A4 restart_disk))
     (Join ''logs'' ''activity-2024-01-01.log'')
     = Some [Line (Sprintf ''[%s] STOP'' [RFC3339 1])]"
  "files (snd (OpenFile None (Join ''logs'' ''activity-2024-01-01.log'')
                 [O_CREATE, O_TRUNC, O_WRONLY] 0x1A4 restart_disk))
     (Join ''logs'' ''activity-2024-01-01.log'')
     = Some []"
  "fst (OpenFile None (Join ''logs'' ''activity-2024-01-02.log'')
          [O_APPEND, O_WRONLY] 0x1A4 restart_disk)
     = Inl (Errno ''The system cannot find the file specified.'')"
  "files (WriteLine WriteOk 0 (Sprintf ''[%s] STOP'' [RFC3339 2])
            (snd (OpenFile None (Join ''logs'' ''activity-2024-01-01.log'')
                    [O_CREATE, O_WRONLY] 0x1A4 restart_disk)))
     (Join ''logs'' ''activity-2024-01-01.log'')
     = Some [Line (Sprintf ''[%s] STOP'' [RFC3339 2])]"
  by (simp_all add: OpenFile_def WriteLine_def put_entry_def restart_disk_def Let_def)

text \<open>
  C7, as stated, fails when the file of the new date cannot be opened: the old handle
  is closed, the call returns without a handle, the line is dropped, and the writer
  stays without a handle through the calls that follow.
\<close>

theorem writer_left_without_handle_counterexample:
  "one_handle day_one
   \<and> r_file (fst (Println (Some (Errno ''Access is denied.'')) WriteOk ''2024-01-02''
                   (Sprintf ''[%s] STOP'' [RFC3339 0]) day_one)) = None
   \<and> handles (snd (Println (Some (Errno ''Access is denied.'')) WriteOk ''2024-01-02''
                   (Sprintf ''[%s] STOP'' [RFC3339 0]) day_one)) = []
   \<and> files (snd (Println (Some (Errno ''Access is denied.'')) WriteOk ''2024-01-02''
                   (Sprintf ''[%s] STOP'' [RFC3339 0]) day_one))
        (Join ''logs'' ''activity-2024-01-02.log'') = None
   \<and> r_file (fst (Sync (Println (Some (Errno ''Access is denied.'')) WriteOk ''2024-01-02''
                   (Sprintf ''[%s] STOP'' [RFC3339 0]) day_one))) = None"
  by (simp add: day_one_inv)
    (simp add: day_one_def Println_def rotateIfNeeded_def closeOld_def OpenFile_def
      CloseFile_def SyncFile_def Sync_def Let_def filenameFor_def)

text \<open>
  C7, amended. Over every sequence of \<^verbatim>\<open>Println\<close>, \<^verbatim>\<open>Sync\<close> and \<^verbatim>\<open>Close\<close>, whatever the
  operating system answers to each open and to each write, at most one handle is open
  at a time (never were two open together) and no file ever loses an entry. A
  rotation syncs and closes the old handle and only then opens the file of the new
  date, with the flags \<^verbatim>\<open>O_CREATE|O_APPEND|O_WRONLY\<close>; when that open succeeds the writer
  holds exactly one handle, in append mode on the file of the new date, and what
  \<^verbatim>\<open>Println\<close> writes comes after the content the file already had: the line when the
  write succeeds, a fragment or nothing when it fails. When the open fails the writer
  is left without a handle and the line is dropped. \<^verbatim>\<open>NewRotatingLogger\<close> on a disk
  with no open handle establishes the invariant and keeps the content of the files
  that exist, so that a restart in the course of a day appends to the file of that
  day.
\<close>

theorem rotating_logger_one_handle:
  assumes "one_handle rd"
  shows "one_handle (apply_ops ops rd)
       \<and> length (handles (snd (apply_ops ops rd))) \<le> 1
       \<and> peak (snd (apply_ops ops rd)) \<le> 1
       \<and> (files (snd rd) p = Some c \<longrightarrow>
            (\<exists>c'. files (snd (apply_ops ops rd)) p = Some (c @ c')))
       \<and> (r_file (fst rd) = Some f \<and> date \<noteq> r_curDate (fst rd) \<longrightarrow>
            syscalls (snd (snd (rotateIfNeeded failure date rd))) =
              syscalls (snd rd) @
                [SysSync f, SysClose f,
                 SysOpen (filenameFor (fst rd) date) [O_CREATE, O_APPEND, O_WRONLY] 0x1A4])
       \<and> handles (snd (closeOld rd)) = []
       \<and> (\<exists>r' d' g. rotateIfNeeded None date rd = (None, r', d')
            \<and> r_file r' = Some g \<and> r_logger r' = Some g \<and> r_curDate r' = date
            \<and> handles d' = [(g, \<lparr>h_path = filenameFor (fst rd) date, h_append = True,
                                  h_writable = True, h_pos = 0\<rparr>)])
       \<and> files (snd (Println None outcome date line rd)) (filenameFor (fst rd) date)
           = Some ((case files (snd rd) (filenameFor (fst rd) date) of
                      None \<Rightarrow> [] | Some c \<Rightarrow> c)
                   @ (case outcome of
                        WriteOk \<Rightarrow> [Line line]
                      | WritePartial e \<Rightarrow> [Fragment line]
                      | WriteFailed e \<Rightarrow> []))
       \<and> (date \<noteq> r_curDate (fst rd) \<or> r_file (fst rd) = None \<longrightarrow>
            r_file (fst (Println (Some err) outcome date line rd)) = None
            \<and> handles (snd (Println (Some err) outcome date line rd)) = []
            \<and> files (snd (Println (Some err) outcome date line rd)) = files (snd rd))
       \<and> (handles d0 = [] \<and> peak d0 \<le> 1
            \<and> NewRotatingLogger mf failure0 date0 dir base d0 = (Inr r0, d1)
            \<longrightarrow> one_handle (r0, d1)
              \<and> (files d0 p0 = Some c0 \<longrightarrow> files d1 p0 = Some c0))"
proof -
  have 1: "one_handle (apply_ops ops rd)"
    using assms by (rule apply_ops_inv)
  then have 2: "length (handles (snd (apply_ops ops rd))) \<le> 1
      \<and> peak (snd (apply_ops ops rd)) \<le> 1"
    by (rule one_handle_count)
  have 3: "files (snd rd) p = Some c \<longrightarrow>
            (\<exists>c'. files (snd (apply_ops ops rd)) p = Some (c @ c'))"
    using apply_ops_kept [OF assms, of ops] by (simp add: kept_def)
  have 4: "r_file (fst rd) = Some f \<and> date \<noteq> r_curDate (fst rd) \<longrightarrow>
            syscalls (snd (snd (rotateIfNeeded failure date rd))) =
              syscalls (snd rd) @
                [SysSync f, SysClose f,
                 SysOpen (filenameFor (fst rd) date) [O_CREATE, O_APPEND, O_WRONLY] 0x1A4]"
    using rotate_order [OF assms] by blast
  have 5: "handles (snd (closeOld rd)) = []"
    using closeOld_none [OF assms] by simp
  have 6: "\<exists>r' d' g. rotateIfNeeded None date rd = (None, r', d')
            \<and> r_file r' = Some g \<and> r_logger r' = Some g \<and> r_curDate r' = date
            \<and> handles d' = [(g, \<lparr>h_path = filenameFor (fst rd) date, h_append = True,
                                  h_writable = True, h_pos = 0\<rparr>)]"
    using rotate_success [OF assms, of date] by (simp add: log_handle_def)
  have 7: "files (snd (Println None outcome date line rd)) (filenameFor (fst rd) date)
           = Some ((case files (snd rd) (filenameFor (fst rd) date) of
                      None \<Rightarrow> [] | Some c \<Rightarrow> c)
                   @ (case outcome of
                        WriteOk \<Rightarrow> [Line line]
                      | WritePartial e \<Rightarrow> [Fragment line]
                      | WriteFailed e \<Rightarrow> []))"
    using assms by (rule Println_written)
  have 8: "date \<noteq> r_curDate (fst rd) \<or> r_file (fst rd) = None \<longrightarrow>
            r_file (fst (Println (Some err) outcome date line rd)) = None
            \<and> handles (snd (Println (Some err) outcome date line rd)) = []
            \<and> files (snd (Println (Some err) outcome date line rd)) = files (snd rd)"
  proof
    assume "date \<noteq> r_curDate (fst rd) \<or> r_file (fst rd) = None"
    from rotate_failure [OF assms this, of err outcome line] show
      "r_file (fst (Println (Some err) outcome date line rd)) = None
       \<and> handles (snd (Println (Some err) outcome date line rd)) = []
       \<and> files (snd (Println (Some err) outcome date line rd)) = files (snd rd)"
      by auto
  qed
  have 9: "handles d0 = [] \<and> peak d0 \<le> 1
            \<and> NewRotatingLogger mf failure0 date0 dir base d0 = (Inr r0, d1)
            \<longrightarrow> one_handle (r0, d1)
              \<and> (files d0 p0 = Some c0 \<longrightarrow> files d1 p0 = Some c0)"
    using New_inv New_files by blast
  from 1 2 3 4 5 6 7 8 9 show ?thesis by blast
qed

theorem rotating_logger_one_handle_witness:
  "one_handle day_one
   \<and> files (snd day_one) (Join ''logs'' ''activity-2024-01-01.log'') = Some []
   \<and> r_file (fst day_one) = Some 0
   \<and> ''2024-01-02'' \<noteq> r_curDate (fst day_one)
   \<and> handles restart_disk = [] \<and> peak restart_disk \<le> 1
   \<and> files restart_disk (Join ''logs'' ''activity-2024-01-01.log'')
       = Some [Line (Sprintf ''[%s] STOP'' [RFC3339 1])]
   \<and> NewRotatingLogger None None ''2024-01-01'' ''logs'' ''activity'' restart_disk
       = (Inr \<lparr>r_dir = ''logs'', r_base = ''activity'', r_curDate = ''2024-01-01'',
                r_file = Some 0, r_logger = Some 0\<rparr>,
          \<lparr>files = [Join ''logs'' ''activity-2024-01-01.log'' \<mapsto>
                      [Line (Sprintf ''[%s] STOP'' [RFC3339 1])]],
           handles = [(0, log_handle (Join ''logs'' ''activity-2024-01-01.log''))],
           opened = 1,
           syscalls = [SysOpen (Join ''logs'' ''activity-2024-01-01.log'')
                         [O_CREATE, O_APPEND, O_WRONLY] 0x1A4],
           peak = 1\<rparr>)
   \<and> syscalls (snd (snd (rotateIfNeeded None ''2024-01-02'' day_one)))
       = [SysOpen (Join ''logs'' ''activity-2024-01-01.log'')
            [O_CREATE, O_APPEND, O_WRONLY] 0x1A4,
          SysSync 0, SysClose 0,
          SysOpen (Join ''logs'' ''activity-2024-01-02.log'')
            [O_CREATE, O_APPEND, O_WRONLY] 0x1A4]
   \<and> handles (snd (apply_ops
        [DoPrintln None WriteOk ''2024-01-01'' (Sprintf ''[%s] STOP'' [RFC3339 1]),
         DoSync,
         DoPrintln None WriteOk ''2024-01-02'' (Sprintf ''[%s] STOP'' [RFC3339 2]),
         DoClose,
         DoPrintln None (WriteFailed (Errno ''There is not enough space on the disk.''))
           ''2024-01-02'' (Sprintf ''[%s] STOP'' [RFC3339 3]),
         DoPrintln None WriteOk ''2024-01-02'' (Sprintf ''[%s] STOP'' [RFC3339 4])] day_one))
       = [(2, log_handle (Join ''logs'' ''activity-2024-01-02.log''))]
   \<and> files (snd (apply_ops
        [DoPrintln None WriteOk ''2024-01-01'' (Sprintf ''[%s] STOP'' [RFC3339 1]),
         DoSync,
         DoPrintln None WriteOk ''2024-01-02'' (Sprintf ''[%s] STOP'' [RFC3339 2]),
         DoClose,
         DoPrintln None (WriteFailed (Errno ''There is not enough space on the disk.''))
           ''2024-01-02'' (Sprintf ''[%s] STOP'' [RFC3339 3]),
         DoPrintln None WriteOk ''2024-01-02'' (Sprintf ''[%s] STOP'' [RFC3339 4])] day_one))
        (Join ''logs'' ''activity-2024-01-02.log'')
       = Some [Line (Sprintf ''[%s] STOP'' [RFC3339 2]),
               Line (Sprintf ''[%s] STOP'' [RFC3339 4])]
   \<and> r_file (fst (Println (Some (Errno ''Access is denied.'')) WriteOk ''2024-01-02''
                   (Sprintf ''[%s] STOP'' [RFC3339 2]) day_one)) = None"
proof -
  have f: "files (snd day_one) (Join ''logs'' ''activity-2024-01-01.log'') = Some []"
    by (simp add: day_one_def)
  have o: "r_file (fst day_one) = Some 0"
    by (simp add: day_one_def)
  have n: "''2024-01-02'' \<noteq> r_curDate (fst day_one)"
    by (simp add: day_one_def)
  have e: "handles restart_disk = []" "peak restart_disk \<le> 1"
    by (simp_all add: restart_disk_def)
  have g: "files restart_disk (Join ''logs'' ''activity-2024-01-01.log'')
       = Some [Line (Sprintf ''[%s] STOP'' [RFC3339 1])]"
    by (simp add: restart_disk_def)
  have s: "syscalls (snd day_one)
       = [SysOpen (Join ''logs'' ''activity-2024-01-01.log'')
            [O_CREATE, O_APPEND, O_WRONLY] 0x1A4]"
    by (simp add: day_one_def)
  have p: "filenameFor (fst day_one) ''2024-01-02'' = Join ''logs'' ''activity-2024-01-02.log''"
    by (simp add: day_one_def filenameFor_def)
  from rotating_logger_one_handle [OF day_one_inv,
      where ops = "[DoPrintln None WriteOk ''2024-01-01'' (Sprintf ''[%s] STOP'' [RFC3339 1]),
           DoSync,
           DoPrintln None WriteOk ''2024-01-02'' (Sprintf ''[%s] STOP'' [RFC3339 2]),
           DoClose,
           DoPrintln None (WriteFailed (Errno ''There is not enough space on the disk.''))
             ''2024-01-02'' (Sprintf ''[%s] STOP'' [RFC3339 3]),
           DoPrintln None WriteOk ''2024-01-02'' (Sprintf ''[%s] STOP'' [RFC3339 4])]"
        and p = "Join ''logs'' ''activity-2024-01-01.log''" and c = "[]"
        and f = 0 and date = "''2024-01-02''" and failure = None
        and outcome = WriteOk and line = "Sprintf ''[%s] STOP'' [RFC3339 2]"
        and err = "Errno ''Access is denied.''"
        and ?d0.0 = restart_disk and mf = None and ?failure0.0 = None
        and ?date0.0 = "''2024-01-01''" and dir = "''logs''" and base = "''activity''"
        and ?r0.0 = "\<lparr>r_dir = ''logs'', r_base = ''activity'', r_curDate = ''2024-01-01'',
           r_file = Some 0, r_logger = Some 0\<rparr>"
        and ?d1.0 = "\<lparr>files = [Join ''logs'' ''activity-2024-01-01.log'' \<mapsto>
                      [Line (Sprintf ''[%s] STOP'' [RFC3339 1])]],
           handles = [(0, log_handle (Join ''logs'' ''activity-2024-01-01.log''))],
           opened = 1,
           syscalls = [SysOpen (Join ''logs'' ''activity-2024-01-01.log'')
                         [O_CREATE, O_APPEND, O_WRONLY] 0x1A4],
           peak = 1\<rparr>"
        and ?p0.0 = "Join ''logs'' ''activity-2024-01-01.log''"
        and ?c0.0 = "[Line (Sprintf ''[%s] STOP'' [RFC3339 1])]"]
    f o n e g restart_new day_one_inv
  show ?thesis
    unfolding two_days by (simp add: s p)
qed

end
